theory Spec2Isabelle
  imports Complex_Main "HOL-Library.Word"
begin

section \<open>Risk scoring engine (rse-server)\<close>

text \<open>
  JavaScript numbers are modelled by their exact values: integer-valued quantities as
  \<open>int\<close>, other quantities as \<open>rat\<close>.  Where the code divides or multiplies numbers
  that need not be integers, the rounding to the nearest double is written out
  (\<open>double\<close>, \<open>toDouble\<close>).
\<close>

subsection \<open>JavaScript built-ins used by the code\<close>

text \<open>\<open>Math.round\<close>: the nearest integer, a tie going up.\<close>

definition mathRound :: "rat \<Rightarrow> int" where
  "mathRound x = \<lfloor>x + 1 / 2\<rfloor>"

text \<open>
  IEEE 754 binary64 arithmetic.  A finite double is modelled by its exact value, a
  rational.  \<open>double x\<close> is the double nearest to \<open>x\<close>, a tie going to the even
  significand: \<open>binade x\<close> is the exponent of the leading bit of \<open>x\<close>, the spacing of
  the doubles around \<open>x\<close> is \<open>2^e\<close> with \<open>e = binade x - 52\<close>, and not below
  \<open>2^-1074\<close>, the spacing of the subnormal numbers.  \<open>toDouble\<close> adds the overflow to
  an infinity.  The result of a division, product or sum of doubles is \<open>toDouble\<close> of
  the exact result.
\<close>

fun log2floor :: "nat \<Rightarrow> nat" where
  "log2floor n = (if n < 2 then 0 else Suc (log2floor (n div 2)))"

declare log2floor.simps [simp del]

definition binade :: "rat \<Rightarrow> int" where
  "binade x =
     (let a = \<bar>x\<bar>
      in if a \<ge> 1 then int (log2floor (nat \<lfloor>a\<rfloor>))
         else (let k = log2floor (nat \<lfloor>1 / a\<rfloor>)
               in if 1 / a \<le> 2 ^ k then - int k else - int k - 1))"

definition powerOfTwo :: "int \<Rightarrow> rat" where
  "powerOfTwo e = (if e \<ge> 0 then 2 ^ nat e else 1 / 2 ^ nat (- e))"

definition roundHalfEven :: "rat \<Rightarrow> int" where
  "roundHalfEven x =
     (let n = \<lfloor>x\<rfloor>; r = x - of_int n
      in if r < 1 / 2 then n
         else if r > 1 / 2 then n + 1
         else if even n then n else n + 1)"

definition double :: "rat \<Rightarrow> rat" where
  "double x =
     (if x = 0 then 0
      else (let e = max (binade x - 52) (- 1074)
            in of_int (roundHalfEven (x / powerOfTwo e)) * powerOfTwo e))"

datatype number = Finite rat | PlusInfinity | MinusInfinity

definition toDouble :: "rat \<Rightarrow> number" where
  "toDouble x =
     (if \<bar>double x\<bar> \<ge> 2 ^ 1024
      then (if x > 0 then PlusInfinity else MinusInfinity)
      else Finite (double x))"

text \<open>Truthiness of an optional number: \<open>undefined\<close>, \<open>null\<close> and 0 are falsy.\<close>

definition truthyNumber :: "int option \<Rightarrow> bool" where
  "truthyNumber a = (case a of None \<Rightarrow> False | Some v \<Rightarrow> v \<noteq> 0)"

text \<open>Truthiness of an optional string: an absent and an empty string are falsy.\<close>

definition truthyString :: "string option \<Rightarrow> bool" where
  "truthyString a = (case a of None \<Rightarrow> False | Some v \<Rightarrow> v \<noteq> [])"

text \<open>The decimal digits of a natural number, without leading zeroes.\<close>

definition digitChar :: "nat \<Rightarrow> char" where
  "digitChar d = ''0123456789'' ! d"

fun digitsOf :: "nat \<Rightarrow> string" where
  "digitsOf n =
     (if n < 10 then [digitChar n] else digitsOf (n div 10) @ [digitChar (n mod 10)])"

declare digitsOf.simps [simp del]

text \<open>
  \<open>Number.prototype.toFixed(f)\<close> for a number below \<open>10^21\<close> in magnitude, after the
  steps of ECMA-262: the sign is split off, \<open>n\<close> is the integer nearest to
  \<open>x * 10^f\<close> (the larger one on a tie), its digits are padded with zeroes to
  \<open>f + 1\<close> places and the point is put before the last \<open>f\<close> digits.
\<close>

definition toFixedNearest :: "nat \<Rightarrow> rat \<Rightarrow> nat" where
  "toFixedNearest f x = nat \<lfloor>\<bar>x\<bar> * 10 ^ f + 1 / 2\<rfloor>"

definition toFixedString :: "nat \<Rightarrow> rat \<Rightarrow> string" where
  "toFixedString f x =
     (let s = (if x < 0 then [CHR ''-''] else []);
          m = digitsOf (toFixedNearest f x);
          m = (if f \<noteq> 0
               then (let k = length m;
                         m = (if k \<le> f then replicate (f + 1 - k) CHR ''0'' @ m else m);
                         k = (if k \<le> f then f + 1 else k)
                     in take (k - f) m @ [CHR ''.''] @ drop (k - f) m)
               else m)
      in s @ m)"

text \<open>
  \<open>Number(x.toFixed(f))\<close>: the decimal string read back as a number.  From \<open>10^21\<close> on
  \<open>toFixed\<close> returns the ordinary rendering of \<open>x\<close>, which reads back as \<open>x\<close>.
\<close>

definition toFixedNumber :: "nat \<Rightarrow> rat \<Rightarrow> rat" where
  "toFixedNumber f x =
     (if \<bar>x\<bar> \<ge> 10 ^ 21 then x
      else (if x < 0 then - 1 else 1) * (of_nat (toFixedNearest f x) / 10 ^ f))"

text \<open>
  \<open>Number(x.toFixed(f))\<close> of a double: \<open>toFixed\<close> renders an infinity by its name,
  which reads back as the infinity.  The decimal that \<open>toFixed\<close> prints stands for the
  double nearest to it.
\<close>

definition numberOfToFixed :: "nat \<Rightarrow> number \<Rightarrow> number" where
  "numberOfToFixed f x =
     (case x of
        Finite v \<Rightarrow> Finite (toFixedNumber f v)
      | PlusInfinity \<Rightarrow> PlusInfinity
      | MinusInfinity \<Rightarrow> MinusInfinity)"

text \<open>
  A message built by a template literal is a list of pieces: literal text, and numbers
  interpolated with JavaScript's default number-to-string conversion.
\<close>

datatype piece = Lit string | Num rat

definition toFixed :: "nat \<Rightarrow> rat \<Rightarrow> piece" where
  "toFixed f x = (if \<bar>x\<bar> \<ge> 10 ^ 21 then Num x else Lit (toFixedString f x))"

subsection \<open>types.ts: WalletFeatures\<close>

text \<open>An optional field (\<open>?:\<close>) is an \<open>option\<close>; \<open>None\<close> is \<open>undefined\<close>.\<close>

record WalletFeatures =
  txCount :: int
  walletAgeDays :: int
  nftCount :: int
  tokenCount :: int
  successfulRepayments :: int
  defaults :: int
  humanVerified :: bool
  hasVC :: bool
  activeDaysLast30 :: "int option"
  avgTxPerActiveDay :: "rat option"
  activityRegularityScore :: "int option"

subsection \<open>scoring.ts: computeTigerScore\<close>

text \<open>
  The guard \<open>f.activityRegularityScore && f.activityRegularityScore > 40\<close>: an
  absent field and the number 0 are both falsy.
\<close>

definition activityBonusApplies :: "int option \<Rightarrow> bool" where
  "activityBonusApplies a =
     (case a of None \<Rightarrow> False | Some v \<Rightarrow> v \<noteq> 0 \<and> v > 40)"

text \<open>The body of \<open>computeTigerScore\<close>, one \<open>let\<close> per assignment to \<open>score\<close>.\<close>

definition computeTigerScore :: "'a WalletFeatures_scheme \<Rightarrow> int" where
  "computeTigerScore f =
     (let score = 300;
          score = (if humanVerified f then score + 80 else score);
          score = (if walletAgeDays f > 180 then score + 40 else score);
          score = (if txCount f > 100 then score + 40 else score);
          score = (if nftCount f > 0 then score + 20 else score);
          score = score + successfulRepayments f * 60;
          score = score - defaults f * 120;
          score = (if hasVC f then score + 30 else score);
          score = (if score < 0 then 0 else score);
          score = (if score > 1000 then 1000 else score);
          score = (if activityBonusApplies (activityRegularityScore f)
                   then score + 40 else score)
      in score)"

subsection \<open>tier.ts: getTier\<close>

definition getTier :: "int \<Rightarrow> string" where
  "getTier score =
     (if score \<ge> 850 then ''Platinum''
      else if score \<ge> 650 then ''Gold''
      else if score \<ge> 400 then ''Silver''
      else ''Bronze'')"

subsection \<open>stripeOracle.ts: deriveStripeIncomeFeatures\<close>

text \<open>
  The two arguments are finite doubles, given by their exact values.  The quotient
  \<open>monthlyIncome / debt\<close> is the double quotient, and \<open>toFixed(2)\<close> rounds that double.
\<close>

record StripeIncomeFeatures =
  incomeVerified :: bool
  incomeBracket :: string
  incomeDebtRatio :: number

definition deriveStripeIncomeFeatures :: "rat \<Rightarrow> rat \<Rightarrow> StripeIncomeFeatures" where
  "deriveStripeIncomeFeatures monthlyIncome debt =
     (let incomeVerified = monthlyIncome > 0;
          incomeBracket = ''low'';
          incomeBracket = (if monthlyIncome > 2000 then ''mid'' else incomeBracket);
          incomeBracket = (if monthlyIncome > 5000 then ''high'' else incomeBracket);
          incomeDebtRatio =
            (if debt = 0 then Finite monthlyIncome
             else numberOfToFixed 2 (toDouble (monthlyIncome / debt)))
      in \<lparr>incomeVerified = incomeVerified,
          incomeBracket = incomeBracket,
          incomeDebtRatio = incomeDebtRatio\<rparr>)"

subsection \<open>solanaClient.ts\<close>

text \<open>
  The chain is read through three RPC calls.  A reply is \<open>None\<close> when the call throws;
  \<open>keyValid\<close> tells whether \<open>new PublicKey(wallet)\<close> succeeds.  Of a signature only
  the block time (seconds, possibly \<open>null\<close>) is read; of a token account only the
  parsed token amount.
\<close>

record SignatureInfo =
  blockTime :: "int option"

record TokenAmount =
  decimals :: int
  uiAmount :: "rat option"

record Chain =
  keyValid :: bool
  signaturesLimit1000 :: "SignatureInfo list option"
  parsedTokenAccounts :: "TokenAmount list option"
  signaturesLimit500 :: "SignatureInfo list option"

record TxStats =
  stTxCount :: int
  stWalletAgeDays :: int

definition getWalletTxStats :: "Chain \<Rightarrow> int \<Rightarrow> TxStats option" where
  "getWalletTxStats chain now =
     (if \<not> keyValid chain then None
      else case signaturesLimit1000 chain of
        None \<Rightarrow> None
      | Some sigs \<Rightarrow>
          (let txCount = int (length sigs);
               walletAgeDays =
                 (if length sigs > 0 \<and> truthyNumber (blockTime (last sigs))
                  then (let firstTime = the (blockTime (last sigs)) * 1000;
                            ageMs = now - firstTime
                        in ageMs div (1000 * 60 * 60 * 24))
                  else 0)
           in Some \<lparr>stTxCount = txCount, stWalletAgeDays = walletAgeDays\<rparr>))"

record TokenStats =
  stTokenCount :: int
  stNftCount :: int

definition nftLike :: "TokenAmount \<Rightarrow> bool" where
  "nftLike amt = (decimals amt = 0 \<and> uiAmount amt = Some 1)"

definition getTokenAccountStats :: "Chain \<Rightarrow> TokenStats option" where
  "getTokenAccountStats chain =
     (if \<not> keyValid chain then None
      else case parsedTokenAccounts chain of
        None \<Rightarrow> None
      | Some accounts \<Rightarrow>
          Some \<lparr>stTokenCount = int (length accounts),
                stNftCount = int (length (filter nftLike accounts))\<rparr>)"

text \<open>
  \<open>getActivityRegularity\<close>.  The key of a signature in the \<open>Set\<close> of days is the
  first ten characters of the ISO rendering of its time, the UTC calendar date; it is
  modelled by the number of the UTC day, which identifies the date.
\<close>

definition THIRTY_DAYS :: int where
  "THIRTY_DAYS = 30 * 24 * 60 * 60 * 1000"

definition isRecent :: "int \<Rightarrow> SignatureInfo \<Rightarrow> bool" where
  "isRecent now s =
     (case blockTime s of
        None \<Rightarrow> False
      | Some t \<Rightarrow> t \<noteq> 0 \<and> now - t * 1000 \<le> THIRTY_DAYS)"

definition utcDay :: "SignatureInfo \<Rightarrow> int" where
  "utcDay s = (the (blockTime s) * 1000) div 86400000"

record Regularity =
  rgActiveDaysLast30 :: int
  rgAvgTxPerActiveDay :: rat
  rgActivityRegularityScore :: int

definition getActivityRegularity :: "Chain \<Rightarrow> int \<Rightarrow> Regularity option" where
  "getActivityRegularity chain now =
     (if \<not> keyValid chain then None
      else case signaturesLimit500 chain of
        None \<Rightarrow> None
      | Some sigs \<Rightarrow>
          (let recent = filter (isRecent now) sigs;
               days = remdups (map utcDay recent);
               activeDaysLast30 = int (length days);
               avgTxPerActiveDay =
                 (if activeDaysLast30 = 0 then 0
                  else of_nat (length recent) / of_int activeDaysLast30);
               activityRegularityScore =
                 min 100 (of_int activeDaysLast30 * 3 + avgTxPerActiveDay * 10)
           in Some \<lparr>rgActiveDaysLast30 = activeDaysLast30,
                     rgAvgTxPerActiveDay = toFixedNumber 2 avgTxPerActiveDay,
                     rgActivityRegularityScore = mathRound activityRegularityScore\<rparr>))"

subsection \<open>features.ts: buildFeatures\<close>

text \<open>
  The three reads are awaited in turn and a failing one aborts the build.  Each of the
  two signature reads takes its own reading of the clock.
\<close>

definition buildFeatures :: "Chain \<Rightarrow> int \<Rightarrow> int \<Rightarrow> WalletFeatures option" where
  "buildFeatures chain now1 now2 =
     (case getWalletTxStats chain now1 of
        None \<Rightarrow> None
      | Some stats \<Rightarrow>
     (case getTokenAccountStats chain of
        None \<Rightarrow> None
      | Some assets \<Rightarrow>
     (case getActivityRegularity chain now2 of
        None \<Rightarrow> None
      | Some regularity \<Rightarrow>
          Some \<lparr>txCount = stTxCount stats,
                walletAgeDays = stWalletAgeDays stats,
                nftCount = stNftCount assets,
                tokenCount = stTokenCount assets,
                successfulRepayments = 0,
                defaults = 0,
                humanVerified = False,
                hasVC = (stTokenCount assets > 0),
                activeDaysLast30 = Some (rgActiveDaysLast30 regularity),
                avgTxPerActiveDay = Some (rgAvgTxPerActiveDay regularity),
                activityRegularityScore =
                  Some (rgActivityRegularityScore regularity)\<rparr>)))"

subsection \<open>The route \<open>POST /risk/recalculate\<close>\<close>

text \<open>
  The body's \<open>monthlyIncome\<close> and \<open>debt\<close> default to 0 when absent.  The features
  scored are the wallet features extended by the income features (the two spreads share
  no key).
\<close>

record RiskRequest =
  wallet :: "string option"
  monthlyIncome :: "rat option"
  debt :: "rat option"

datatype RiskReply =
    WalletRequired
  | FailedToReadWalletData
  | RiskScore int string "StripeIncomeFeatures WalletFeatures_scheme"

definition riskRecalculate :: "RiskRequest \<Rightarrow> Chain \<Rightarrow> int \<Rightarrow> int \<Rightarrow> RiskReply" where
  "riskRecalculate req chain now1 now2 =
     (let income = (case monthlyIncome req of None \<Rightarrow> 0 | Some v \<Rightarrow> v);
          owed = (case debt req of None \<Rightarrow> 0 | Some v \<Rightarrow> v)
      in if \<not> truthyString (wallet req) then WalletRequired
         else case buildFeatures chain now1 now2 of
           None \<Rightarrow> FailedToReadWalletData
         | Some baseFeatures \<Rightarrow>
             (let stripeFeatures = deriveStripeIncomeFeatures income owed;
                  features = WalletFeatures.extend baseFeatures stripeFeatures;
                  score = computeTigerScore features;
                  tier = getTier score
              in RiskScore score tier features))"

section \<open>Loan decision backend\<close>

subsection \<open>config.js\<close>

record LoanTier =
  level :: nat
  minTigerScore :: int
  maxLoanLimit :: int
  baseInterestRate :: int
  maxDtiRatio :: rat
  loanApplicationVelocityLimit :: int
  description :: string

definition LOAN_TIERS :: "LoanTier list" where
  "LOAN_TIERS =
     [\<lparr>level = 0, minTigerScore = 0, maxLoanLimit = 50, baseInterestRate = 15,
       maxDtiRatio = 2 / 10, loanApplicationVelocityLimit = 3,
       description = ''Entry-level micro-loan. Build your trust!''\<rparr>,
      \<lparr>level = 1, minTigerScore = 200, maxLoanLimit = 150, baseInterestRate = 10,
       maxDtiRatio = 3 / 10, loanApplicationVelocityLimit = 2,
       description = ''Intermediate borrower. Higher limits, lower rates.''\<rparr>,
      \<lparr>level = 2, minTigerScore = 400, maxLoanLimit = 500, baseInterestRate = 7,
       maxDtiRatio = 4 / 10, loanApplicationVelocityLimit = 1,
       description = ''Trusted borrower. Significant limits, good rates.''\<rparr>,
      \<lparr>level = 3, minTigerScore = 600, maxLoanLimit = 1000, baseInterestRate = 5,
       maxDtiRatio = 5 / 10, loanApplicationVelocityLimit = 1,
       description = ''Elite borrower. Maximum limits, best rates.''\<rparr>]"

definition MIN_REQUIRED_INCOME_PROOF :: int where
  "MIN_REQUIRED_INCOME_PROOF = 100"

definition REPAYMENT_TERMS :: "(string \<times> nat) list" where
  "REPAYMENT_TERMS =
     [(''7_days'', 7), (''15_days'', 15), (''30_days'', 30), (''60_days'', 60),
      (''90_days'', 90)]"

text \<open>
  \<open>REPAYMENT_TERMS[key]\<close> reads an object: besides its own five keys it answers the
  keys it inherits from \<open>Object.prototype\<close>, with a function or an object, which is
  truthy and is not a number.
\<close>

definition inheritedKeys :: "string list" where
  "inheritedKeys =
     [''constructor'', ''toString'', ''toLocaleString'', ''valueOf'', ''hasOwnProperty'',
      ''isPrototypeOf'', ''propertyIsEnumerable'', ''__proto__'', ''__defineGetter__'',
      ''__defineSetter__'', ''__lookupGetter__'', ''__lookupSetter__'']"

datatype termEntry = Days nat | Inherited

definition lookupTerm :: "string \<Rightarrow> termEntry option" where
  "lookupTerm key =
     (case map_of REPAYMENT_TERMS key of
        Some d \<Rightarrow> Some (Days d)
      | None \<Rightarrow> if key \<in> set inheritedKeys then Some Inherited else None)"

subsection \<open>utils/loanProgram.js\<close>

text \<open>
  The two account types, with the integer widths of their borsh schemas.  The hash of a
  profile is an \<open>option\<close>: \<open>None\<close> is a field that is \<open>null\<close> or \<open>undefined\<close>; any byte
  array, also one of zeroes, is truthy.
\<close>

record UserProfile =
  tigerScore :: "64 word"
  levelUpTier :: "8 word"
  did :: string
  humanVerifiedVcHash :: "8 word list option"
  createdAt :: "64 word"
  updatedAt :: "64 word"

record LoanAccount =
  loanId :: string
  borrower :: "8 word list"
  principalAmount :: "64 word"
  outstandingAmount :: "64 word"
  loanInterestRate :: "8 word"
  repaymentDueDate :: "64 word"
  status :: "8 word"
  incomeProofVcHash :: "8 word list"
  loanCreatedAt :: "64 word"

text \<open>
  The two schemas, as lists of field names and field types.  A type is a name or a byte
  array of a fixed length.
\<close>

datatype fieldType = TypeName string | FixedBytes nat

definition USER_PROFILE_SCHEMA :: "(string \<times> fieldType) list" where
  "USER_PROFILE_SCHEMA =
     [(''tigerScore'', TypeName ''u64''),
      (''levelUpTier'', TypeName ''u8''),
      (''did'', TypeName ''string''),
      (''humanVerifiedVcHash'', FixedBytes 32),
      (''createdAt'', TypeName ''u64''),
      (''updatedAt'', TypeName ''u64'')]"

definition LOAN_ACCOUNT_SCHEMA :: "(string \<times> fieldType) list" where
  "LOAN_ACCOUNT_SCHEMA =
     [(''loanId'', TypeName ''string''),
      (''borrower'', TypeName ''publicKey''),
      (''amount'', TypeName ''u64''),
      (''outstandingAmount'', TypeName ''u64''),
      (''interestRate'', TypeName ''u8''),
      (''repaymentDueDate'', TypeName ''u64''),
      (''status'', TypeName ''u8''),
      (''incomeProofVcHash'', FixedBytes 32),
      (''createdAt'', TypeName ''u64'')]"

text \<open>
  \<open>borsh.deserialize\<close> (the library, version 0.x, whose schemas are such maps) reads the
  fields in turn.  A byte array of a fixed length is read by \<open>readFixedArray\<close>; a type
  named \<open>t\<close> is read by the method \<open>read<T>\<close> of the reader, which has \<open>readU8\<close> to
  \<open>readU512\<close> and \<open>readString\<close>.  For any other name the method is \<open>undefined\<close> and
  calling it throws, whatever the data.  \<open>stored\<close> is the value that the data of the
  account encode under the layout of the schema, \<open>None\<close> when there is no account or
  its data do not fit; \<open>None\<close> as a result is the exception.
\<close>

definition readerTypes :: "string list" where
  "readerTypes = [''u8'', ''u16'', ''u32'', ''u64'', ''u128'', ''u256'', ''u512'', ''string'']"

fun fieldReadable :: "fieldType \<Rightarrow> bool" where
  "fieldReadable (TypeName t) = (t \<in> set readerTypes)"
| "fieldReadable (FixedBytes n) = True"

definition borshDeserialize :: "(string \<times> fieldType) list \<Rightarrow> 'a option \<Rightarrow> 'a option" where
  "borshDeserialize schema stored =
     (if list_all fieldReadable (map snd schema) then stored else None)"

text \<open>
  \<open>getUserProfile\<close>: \<open>null\<close> when there is no account, and when the deserialization
  throws.
\<close>

definition getUserProfile :: "UserProfile option \<Rightarrow> UserProfile option" where
  "getUserProfile stored = borshDeserialize USER_PROFILE_SCHEMA stored"

text \<open>
  \<open>getOutstandingLoans\<close> walks the loan accounts derived for the borrower.  An account
  that is missing is skipped, and so is one whose deserialization throws (the
  \<open>catch\<close> with \<open>continue\<close>).
\<close>

fun getOutstandingLoans :: "LoanAccount option list \<Rightarrow> LoanAccount list" where
  "getOutstandingLoans [] = []"
| "getOutstandingLoans (stored # pdas) =
     (case borshDeserialize LOAN_ACCOUNT_SCHEMA stored of
        None \<Rightarrow> getOutstandingLoans pdas
      | Some loanAccount \<Rightarrow>
          (if status loanAccount = 0 \<and> outstandingAmount loanAccount > 0
           then loanAccount # getOutstandingLoans pdas
           else getOutstandingLoans pdas))"

text \<open>The score of a profile as the number JavaScript computes with.\<close>

definition scoreOf :: "UserProfile \<Rightarrow> int" where
  "scoreOf profile = uint (tigerScore profile)"

definition getVerifiedIncome :: "UserProfile option \<Rightarrow> int" where
  "getVerifiedIncome profile =
     (case profile of
        None \<Rightarrow> 0
      | Some p \<Rightarrow>
          (if humanVerifiedVcHash p = None then 0
           else (let baseIncome = 200;
                     scoreBonus = \<lfloor>of_int (scoreOf p) * (5 / 10 :: rat)\<rfloor>
                 in min (baseIncome + scoreBonus) 10000)))"

subsection \<open>server.js: the tier scan\<close>

text \<open>
  The loop \<open>for (i = LOAN_TIERS.length - 1; i >= 0; i--)\<close> with its \<open>break\<close>; the
  result is \<open>None\<close> when the loop ends with \<open>appropriateTier\<close> still \<open>null\<close>.
\<close>

function tierScan :: "LoanTier list \<Rightarrow> int \<Rightarrow> int \<Rightarrow> LoanTier option" where
  "tierScan tiers score i =
     (if i \<ge> 0
      then (if score \<ge> minTigerScore (tiers ! nat i)
            then Some (tiers ! nat i)
            else tierScan tiers score (i - 1))
      else None)"
  by pat_completeness auto
termination
  by (relation "measure (\<lambda>(tiers, score, i). nat (i + 1))") auto

declare tierScan.simps [simp del]

definition appropriateTier :: "int \<Rightarrow> LoanTier option" where
  "appropriateTier score = tierScan LOAN_TIERS score (int (length LOAN_TIERS) - 1)"

subsection \<open>server.js: \<open>POST /api/loan/apply\<close>\<close>

text \<open>
  The request body.  The amount is any JSON value, since the handler tests its type.
\<close>

datatype jsvalue =
    JUndefined | JNull | JBool bool | JNumber rat | JString string | JObject

fun truthy :: "jsvalue \<Rightarrow> bool" where
  "truthy JUndefined = False"
| "truthy JNull = False"
| "truthy (JBool b) = b"
| "truthy (JNumber x) = (x \<noteq> 0)"
| "truthy (JString s) = (s \<noteq> [])"
| "truthy JObject = True"

record LoanRequest =
  walletAddress :: "string option"
  loanAmount :: jsvalue
  repaymentTerm :: "string option"

text \<open>
  What the handler reads from outside: whether the address parses as a public key, the
  profile stored in the profile account (\<open>None\<close> when there is no account or it
  cannot be fetched), the loans
  stored in the loan accounts derived for the borrower, the value of \<open>Math.random()\<close>
  and the clock in milliseconds.
\<close>

record World =
  addressValid :: bool
  profileAccount :: "UserProfile option"
  loanAccounts :: "LoanAccount option list"
  randomDraw :: rat
  clock :: int

text \<open>
  The proposed terms of an approval.  A figure computed from an inherited key of
  \<open>REPAYMENT_TERMS\<close> is \<open>NaN\<close>, modelled by \<open>None\<close>.  The score of the borrower is
  the \<open>u64\<close> of the profile as it was deserialized.
\<close>

record ProposedTerms =
  approvedAmount :: rat
  requestedAmount :: rat
  termInterestRate :: int
  termKey :: string
  repaymentDays :: "nat option"
  interestAmount :: "rat option"
  totalRepaymentAmount :: "rat option"
  dailyPayment :: "rat option"
  termDueDate :: "int option"
  tierLevel :: nat
  tierDescription :: string
  borrowerTigerScore :: "64 word"
  borrowerVerifiedIncome :: int
  borrowerCurrentDti :: rat
  borrowerOutstandingDebt :: rat

text \<open>
  The handler's return sites.  A rejection carries the HTTP status and the message; the
  code names the return site.
\<close>

datatype rejection =
    MissingFields | InvalidAmount | InvalidTerm | InvalidWallet
  | ProfileNotFound | InsufficientScore | InsufficientIncome
  | HighDebtToIncome | VelocityExceeded | AmountTooLow

datatype reply =
    Rejected nat rejection "piece list"
  | Approved ProposedTerms

text \<open>
  The debt: the \<open>reduce\<close> over the outstanding loans, in USDC of 6 decimals.  The
  handler only ever reduces the empty list (see \<open>getOutstandingLoans\<close>).
\<close>

definition outstandingDebtUSD :: "LoanAccount list \<Rightarrow> rat" where
  "outstandingDebtUSD loans =
     foldl (\<lambda>total loan. total + of_int (uint (outstandingAmount loan)) / 1000000) 0 loans"

text \<open>Step 5: the three limits and their minimum.\<close>

definition maxApprovedLoanAmount :: "LoanTier \<Rightarrow> UserProfile \<Rightarrow> int" where
  "maxApprovedLoanAmount tier profile =
     (let tierMaxAmount = maxLoanLimit tier;
          scoreBasedLimit = \<lfloor>of_int (scoreOf profile) * (8 / 10 :: rat)\<rfloor>;
          incomeBasedLimit =
            \<lfloor>of_int (getVerifiedIncome (Some profile)) * (3 / 10 :: rat)\<rfloor>
      in min tierMaxAmount (min scoreBasedLimit incomeBasedLimit))"

text \<open>
  \<open>Math.round(x * 100) / 100\<close>: the product is a double, \<open>Math.round\<close> is exact, and
  the quotient is the double nearest to the hundredth, which stands for it.
\<close>

definition roundToCents :: "rat \<Rightarrow> rat" where
  "roundToCents x = of_int (mathRound (double (x * 100))) / 100"

text \<open>
  Step 7: the terms proposed for an amount, a tier and a repayment term.  The amount is
  a double; the products, the quotients and the sum are doubles (none can overflow:
  the approved amount is at most the limit of the tier).
\<close>

definition proposeTerms ::
  "rat \<Rightarrow> string \<Rightarrow> termEntry \<Rightarrow> LoanTier \<Rightarrow> UserProfile \<Rightarrow> rat \<Rightarrow> int
     \<Rightarrow> ProposedTerms" where
  "proposeTerms amount key entry tier profile debtUSD now =
     (let approved = min amount (of_int (maxApprovedLoanAmount tier profile));
          rate = baseInterestRate tier;
          days = (case entry of Days d \<Rightarrow> Some d | Inherited \<Rightarrow> None);
          interest =
            map_option
              (\<lambda>d. double (double (double (approved * of_int rate) * of_nat d) / (100 * 365)))
              days;
          total = map_option (\<lambda>i. double (approved + i)) interest;
          daily =
            (case (total, days) of
               (Some t, Some d) \<Rightarrow> Some (double (t / of_nat d))
             | _ \<Rightarrow> None);
          currentTimestamp = now div 1000;
          due = map_option (\<lambda>d. currentTimestamp + int d * 24 * 60 * 60) days;
          income = getVerifiedIncome (Some profile);
          currentDti = double (debtUSD / of_int income)
      in \<lparr>approvedAmount = approved,
          requestedAmount = amount,
          termInterestRate = rate,
          termKey = key,
          repaymentDays = days,
          interestAmount = map_option roundToCents interest,
          totalRepaymentAmount = map_option roundToCents total,
          dailyPayment = map_option roundToCents daily,
          termDueDate = due,
          tierLevel = level tier,
          tierDescription = description tier,
          borrowerTigerScore = tigerScore profile,
          borrowerVerifiedIncome = income,
          borrowerCurrentDti = of_int (mathRound (double (currentDti * 1000))) / 10,
          borrowerOutstandingDebt = roundToCents debtUSD\<rparr>)"

text \<open>
  Steps 1 to 7 of the handler, run once the body has passed validation.  No loan is
  ever read (see \<open>getOutstandingLoans\<close>), so the debt and \<open>currentDti\<close> are 0 and the
  comparison with the ceiling of the tier is exact.
\<close>

definition decideLoan :: "rat \<Rightarrow> string \<Rightarrow> termEntry \<Rightarrow> World \<Rightarrow> reply" where
  "decideLoan amount key entry world =
     (case getUserProfile (profileAccount world) of
        None \<Rightarrow>
          Rejected 200 ProfileNotFound
            [Lit ''User profile not found. Please complete identity verification first.'']
      | Some userProfile \<Rightarrow>
     (case appropriateTier (scoreOf userProfile) of
        None \<Rightarrow>
          Rejected 200 InsufficientScore
            [Lit ''Insufficient TigerScore ('', Num (of_int (scoreOf userProfile)),
             Lit ''). Minimum required: '',
             Num (of_int (minTigerScore (LOAN_TIERS ! 0)))]
      | Some tier \<Rightarrow>
     (let verifiedMonthlyIncomeUSD = getVerifiedIncome (Some userProfile)
      in if verifiedMonthlyIncomeUSD < MIN_REQUIRED_INCOME_PROOF
         then Rejected 200 InsufficientIncome
            [Lit ''Insufficient verified income ($'',
             Num (of_int verifiedMonthlyIncomeUSD),
             Lit ''). Minimum required: $'', Num (of_int MIN_REQUIRED_INCOME_PROOF),
             Lit ''/month'']
         else
     (let outstandingLoans = getOutstandingLoans (loanAccounts world);
          debtUSD = outstandingDebtUSD outstandingLoans;
          currentDti = debtUSD / of_int verifiedMonthlyIncomeUSD
      in if currentDti > maxDtiRatio tier
         then Rejected 200 HighDebtToIncome
            [Lit ''High Debt-to-Income Ratio ('', toFixed 1 (currentDti * 100),
             Lit ''%). Maximum allowed: '', toFixed 1 (maxDtiRatio tier * 100),
             Lit ''%'']
         else
     (let recentApplications = \<lfloor>randomDraw world * 3\<rfloor>
      in if recentApplications \<ge> loanApplicationVelocityLimit tier
         then Rejected 200 VelocityExceeded
            [Lit ''Too many recent loan applications ('',
             Num (of_int recentApplications),
             Lit ''). Please wait before applying again.'']
         else
     (let maxAmount = maxApprovedLoanAmount tier userProfile
      in if amount > of_int maxAmount \<and> maxAmount < 10
         then Rejected 200 AmountTooLow
            [Lit ''Requested amount ($'', Num amount,
             Lit '') exceeds maximum approved amount ($'', Num (of_int maxAmount),
             Lit ''). Please build your TigerScore first.'']
         else Approved
            (proposeTerms amount key entry tier userProfile debtUSD (clock world))))))))"

text \<open>The handler: validation of the body, then the decision.\<close>

definition applyForLoan :: "LoanRequest \<Rightarrow> World \<Rightarrow> reply" where
  "applyForLoan req world =
     (if \<not> truthyString (walletAddress req) \<or> \<not> truthy (loanAmount req)
          \<or> \<not> truthyString (repaymentTerm req)
      then Rejected 400 MissingFields
         [Lit ''Missing required fields: walletAddress, loanAmount, repaymentTerm'']
      else case loanAmount req of
        JNumber amount \<Rightarrow>
          (if amount \<le> 0
           then Rejected 400 InvalidAmount
              [Lit ''Invalid loan amount. Must be a positive number.'']
           else case lookupTerm (the (repaymentTerm req)) of
             None \<Rightarrow>
               Rejected 400 InvalidTerm
                 [Lit ''Invalid repayment term. Supported terms: 7_days, 15_days, 30_days, 60_days, 90_days'']
           | Some entry \<Rightarrow>
               (if \<not> addressValid world
                then Rejected 400 InvalidWallet [Lit ''Invalid wallet address format.'']
                else decideLoan amount (the (repaymentTerm req)) entry world))
      | _ \<Rightarrow>
          Rejected 400 InvalidAmount
            [Lit ''Invalid loan amount. Must be a positive number.''])"

text \<open>Readers of a reply.\<close>

definition approvedAmountOf :: "reply \<Rightarrow> rat option" where
  "approvedAmountOf r =
     (case r of Approved terms \<Rightarrow> Some (approvedAmount terms) | Rejected _ _ _ \<Rightarrow> None)"

definition rejectionOf :: "reply \<Rightarrow> rejection option" where
  "rejectionOf r = (case r of Rejected _ code _ \<Rightarrow> Some code | Approved _ \<Rightarrow> None)"

definition messageOf :: "reply \<Rightarrow> piece list" where
  "messageOf r = (case r of Rejected _ _ msg \<Rightarrow> msg | Approved _ \<Rightarrow> [])"

section \<open>Auxiliary definitions for the properties\<close>

text \<open>The sum that \<open>computeTigerScore\<close> has accumulated when it reaches its clamp.\<close>

definition preClampSum :: "'a WalletFeatures_scheme \<Rightarrow> int" where
  "preClampSum f =
     300
     + (if humanVerified f then 80 else 0)
     + (if walletAgeDays f > 180 then 40 else 0)
     + (if txCount f > 100 then 40 else 0)
     + (if nftCount f > 0 then 20 else 0)
     + successfulRepayments f * 60
     - defaults f * 120
     + (if hasVC f then 30 else 0)"

text \<open>
  The additive model as the specification words it: every term is added, the activity
  bonus included, and the complete sum is clamped to \<open>[0, 1000]\<close> afterwards.
\<close>

definition specTigerScore :: "'a WalletFeatures_scheme \<Rightarrow> int" where
  "specTigerScore f =
     max 0 (min 1000
       (300
        + (if humanVerified f then 80 else 0)
        + (if walletAgeDays f > 180 then 40 else 0)
        + (if txCount f > 100 then 40 else 0)
        + (if nftCount f > 0 then 20 else 0)
        + successfulRepayments f * 60
        - defaults f * 120
        + (if hasVC f then 30 else 0)
        + (case activityRegularityScore f of
             None \<Rightarrow> 0 | Some v \<Rightarrow> if v > 40 then 40 else 0)))"


text \<open>
  The outstanding loans as the specification words them: the loans stored for the
  wallet that are active, neither repaid nor defaulted.
\<close>

fun specOutstandingLoans :: "LoanAccount option list \<Rightarrow> LoanAccount list" where
  "specOutstandingLoans [] = []"
| "specOutstandingLoans (None # pdas) = specOutstandingLoans pdas"
| "specOutstandingLoans (Some loanAccount # pdas) =
     (if status loanAccount = 0 \<and> outstandingAmount loanAccount > 0
      then loanAccount # specOutstandingLoans pdas
      else specOutstandingLoans pdas)"

text \<open>
  Seventeen signatures on eleven consecutive days, the newest first, read at the start of
  day twelve.
\<close>

definition elevenDays :: "SignatureInfo list" where
  "elevenDays =
     [\<lparr>blockTime = Some 950400\<rparr>, \<lparr>blockTime = Some 864000\<rparr>,
      \<lparr>blockTime = Some 777600\<rparr>, \<lparr>blockTime = Some 691200\<rparr>,
      \<lparr>blockTime = Some 604800\<rparr>,
      \<lparr>blockTime = Some 518460\<rparr>, \<lparr>blockTime = Some 518400\<rparr>,
      \<lparr>blockTime = Some 432060\<rparr>, \<lparr>blockTime = Some 432000\<rparr>,
      \<lparr>blockTime = Some 345660\<rparr>, \<lparr>blockTime = Some 345600\<rparr>,
      \<lparr>blockTime = Some 259260\<rparr>, \<lparr>blockTime = Some 259200\<rparr>,
      \<lparr>blockTime = Some 172860\<rparr>, \<lparr>blockTime = Some 172800\<rparr>,
      \<lparr>blockTime = Some 86460\<rparr>, \<lparr>blockTime = Some 86400\<rparr>]"

definition elevenDaysChain :: Chain where
  "elevenDaysChain =
     \<lparr>keyValid = True,
      signaturesLimit1000 = Some elevenDays,
      parsedTokenAccounts =
        Some [\<lparr>decimals = 0, uiAmount = Some 1\<rparr>, \<lparr>decimals = 6, uiAmount = Some (5 / 2)\<rparr>],
      signaturesLimit500 = Some elevenDays\<rparr>"

text \<open>
  A verified profile with a given score, an active loan with a given outstanding
  amount, and a world made of a profile and what the loan accounts store.
\<close>

definition verifiedProfile :: "64 word \<Rightarrow> UserProfile" where
  "verifiedProfile s =
     \<lparr>tigerScore = s, levelUpTier = 0, did = ''did:tigertrust:user123'',
      humanVerifiedVcHash = Some (replicate 32 1), createdAt = 1700000000,
      updatedAt = 1700000000\<rparr>"

definition activeLoan :: "64 word \<Rightarrow> LoanAccount" where
  "activeLoan owed =
     \<lparr>loanId = ''loan-0'', borrower = replicate 32 2, principalAmount = owed,
      outstandingAmount = owed,
      loanInterestRate = 10, repaymentDueDate = 1702592000, status = 0,
      incomeProofVcHash = replicate 32 1, loanCreatedAt = 1700000000\<rparr>"

definition worldOf :: "UserProfile \<Rightarrow> LoanAccount option list \<Rightarrow> World" where
  "worldOf p accounts =
     \<lparr>addressValid = True, profileAccount = Some p, loanAccounts = accounts,
      randomDraw = 0, clock = 1700000000000\<rparr>"

definition requestOf :: "rat \<Rightarrow> LoanRequest" where
  "requestOf amt =
     \<lparr>walletAddress = Some ''G3X'', loanAmount = JNumber amt,
      repaymentTerm = Some ''30_days''\<rparr>"

section \<open>Properties of the score engine\<close>

lemma bump_if: "(if b then (s::int) + k else s) = s + (if b then k else 0)"
  by simp

lemma computeTigerScore_unfold:
  "computeTigerScore f =
     max 0 (min 1000 (preClampSum f))
     + (if activityBonusApplies (activityRegularityScore f) then 40 else 0)"
proof -
  define b1 where "b1 = (if humanVerified f then 80 else (0::int))"
  define b2 where "b2 = (if walletAgeDays f > 180 then 40 else (0::int))"
  define b3 where "b3 = (if txCount f > 100 then 40 else (0::int))"
  define b4 where "b4 = (if nftCount f > 0 then 20 else (0::int))"
  define b5 where "b5 = (if hasVC f then 30 else (0::int))"
  define s where
    "s = 300 + b1 + b2 + b3 + b4 + successfulRepayments f * 60 - defaults f * 120 + b5"
  have "computeTigerScore f =
     (let score = s;
          score = (if score < 0 then 0 else score);
          score = (if score > 1000 then 1000 else score);
          score = (if activityBonusApplies (activityRegularityScore f)
                   then score + 40 else score)
      in score)"
    unfolding computeTigerScore_def bump_if Let_def s_def b1_def b2_def b3_def b4_def b5_def
    by (rule refl)
  also have "\<dots> = max 0 (min 1000 s)
      + (if activityBonusApplies (activityRegularityScore f) then 40 else 0)"
    by (simp add: Let_def max_def min_def)
  finally show ?thesis
    by (simp only: s_def preClampSum_def b1_def b2_def b3_def b4_def b5_def)
qed

lemma specTigerScore_unfold:
  "specTigerScore f =
     max 0 (min 1000 (preClampSum f
       + (if activityBonusApplies (activityRegularityScore f) then 40 else 0)))"
proof -
  have "(case activityRegularityScore f of None \<Rightarrow> 0 | Some v \<Rightarrow> if v > 40 then 40 else (0::int))
      = (if activityBonusApplies (activityRegularityScore f) then 40 else 0)"
    by (simp add: activityBonusApplies_def split: option.split)
  then show ?thesis
    by (simp only: specTigerScore_def preClampSum_def)
qed

lemma computeTigerScore_bounds:
  "0 \<le> computeTigerScore f \<and> computeTigerScore f \<le> 1040"
  by (simp add: computeTigerScore_unfold max_def min_def)

lemma computeTigerScore_without_bonus:
  "\<not> activityBonusApplies (activityRegularityScore f) \<Longrightarrow>
     computeTigerScore f = specTigerScore f"
  by (simp add: computeTigerScore_unfold specTigerScore_unfold)

lemma computeTigerScore_inside_clamp:
  "0 \<le> preClampSum f \<Longrightarrow> preClampSum f \<le> 960 \<Longrightarrow>
     computeTigerScore f = specTigerScore f"
  by (simp add: computeTigerScore_unfold specTigerScore_unfold max_def min_def)

text \<open>
  C1.  The claim bounds the score by 1000 for every feature record.  A verified
  wallet with ten repayments and an activity score of 50 reaches the clamp at 1000 and
  then receives the activity bonus: the function returns 1040.
\<close>

theorem C1_score_exceeds_1000:
  "computeTigerScore
     \<lparr>txCount = 150, walletAgeDays = 200, nftCount = 1, tokenCount = 2,
      successfulRepayments = 10, defaults = 0, humanVerified = True, hasVC = True,
      activeDaysLast30 = Some 12, avgTxPerActiveDay = Some 2,
      activityRegularityScore = Some 50\<rparr> = 1040"
  by (simp add: computeTigerScore_def activityBonusApplies_def)

text \<open>
  C2.  The claim equates the function with the additive model whose clamp comes last.
  For a wallet with three defaults and an activity score of 50 the complete sum is
  \<open>-20\<close>, which the model clamps to 0; the function clamps \<open>-60\<close> to 0 first and then
  adds the bonus, returning 40.
\<close>

theorem C2_clamp_before_bonus:
  "computeTigerScore
     \<lparr>txCount = 0, walletAgeDays = 0, nftCount = 0, tokenCount = 0,
      successfulRepayments = 0, defaults = 3, humanVerified = False, hasVC = False,
      activeDaysLast30 = Some 12, avgTxPerActiveDay = Some 2,
      activityRegularityScore = Some 50\<rparr> = 40
   \<and> specTigerScore
     \<lparr>txCount = 0, walletAgeDays = 0, nftCount = 0, tokenCount = 0,
      successfulRepayments = 0, defaults = 3, humanVerified = False, hasVC = False,
      activeDaysLast30 = Some 12, avgTxPerActiveDay = Some 2,
      activityRegularityScore = Some 50\<rparr> = 0"
  by (simp add: computeTigerScore_def specTigerScore_def activityBonusApplies_def)

section \<open>Rounding\<close>

lemma floor_rat_numeral [simp]:
  "\<lfloor>numeral a / numeral b :: rat\<rfloor> = numeral a div numeral b"
  using floor_divide_of_int_eq [of "numeral a" "numeral b", where ?'a = rat] by simp

lemma toFixedNumber_nonneg:
  assumes "0 \<le> x" "x < 10 ^ 21"
  shows "toFixedNumber f x = of_int \<lfloor>x * 10 ^ f + 1 / 2\<rfloor> / 10 ^ f"
proof -
  have "0 \<le> x * 10 ^ f + 1 / 2" using assms(1) by simp
  then have "0 \<le> \<lfloor>x * 10 ^ f + 1 / 2\<rfloor>" by simp
  then have "(of_nat (nat \<lfloor>x * 10 ^ f + 1 / 2\<rfloor>) :: rat) = of_int \<lfloor>x * 10 ^ f + 1 / 2\<rfloor>"
    by simp
  with assms show ?thesis
    by (simp add: toFixedNumber_def toFixedNearest_def abs_of_nonneg)
qed

lemma toFixedNumber_two_close:
  assumes "0 \<le> x" "x < 10 ^ 21"
  shows "\<bar>toFixedNumber 2 x - x\<bar> \<le> 1 / 200"
proof -
  define y where "y = x * 100 + 1 / 2"
  have eq: "toFixedNumber 2 x = of_int \<lfloor>y\<rfloor> / 100"
    using toFixedNumber_nonneg [OF assms, of 2] by (simp add: y_def)
  have "of_int \<lfloor>y\<rfloor> \<le> y" "y - 1 < of_int \<lfloor>y\<rfloor>" by linarith+
  then have "of_int \<lfloor>y\<rfloor> / 100 - x \<le> 1 / 200" "- (1 / 200) < of_int \<lfloor>y\<rfloor> / 100 - x"
    by (simp_all add: y_def field_simps)
  then show ?thesis unfolding eq by linarith
qed

section \<open>Doubles\<close>

lemma log2floor_numeral [simp]:
  "log2floor 0 = 0" "log2floor (Suc 0) = 0"
  "log2floor (numeral k) =
     (if numeral k < (2::nat) then 0 else Suc (log2floor (numeral k div 2)))"
  by (simp_all add: log2floor.simps [of 0] log2floor.simps [of "Suc 0"]
      log2floor.simps [of "numeral k"])

lemma powerOfTwo_pos: "0 < powerOfTwo e"
  by (simp add: powerOfTwo_def)

lemma roundHalfEven_nonneg: "0 \<le> y \<Longrightarrow> 0 \<le> roundHalfEven y"
proof -
  assume "0 \<le> y"
  then have "0 \<le> \<lfloor>y\<rfloor>" by simp
  then show ?thesis by (simp add: roundHalfEven_def Let_def)
qed

lemma double_nonneg:
  assumes "0 \<le> x"
  shows "0 \<le> double x"
proof (cases "x = 0")
  case True
  then show ?thesis by (simp add: double_def)
next
  case False
  define e where "e = max (binade x - 52) (- 1074)"
  have "0 \<le> x / powerOfTwo e"
    using assms powerOfTwo_pos [of e] by simp
  then have "0 \<le> roundHalfEven (x / powerOfTwo e)"
    by (rule roundHalfEven_nonneg)
  then have "(0::rat) \<le> of_int (roundHalfEven (x / powerOfTwo e)) * powerOfTwo e"
    using powerOfTwo_pos [of e] by simp
  with False show ?thesis
    by (simp add: double_def Let_def e_def)
qed

lemma double_examples:
  "double (2000 / 3) = 5864062014805333 / 8796093022208"
  "double (201 / 200) = 1131529406376837 / 1125899906842624"
  "double (3 / 40) = 5404319552844595 / 72057594037927936"
  by (simp_all add: double_def binade_def powerOfTwo_def roundHalfEven_def)

section \<open>Properties of the income oracle\<close>

lemma incomeDebtRatio_cases:
  assumes "0 \<le> q"
  shows "numberOfToFixed 2 (toDouble q) =
     (if 2 ^ 1024 \<le> double q then PlusInfinity
      else if 10 ^ 21 \<le> double q then Finite (double q)
      else Finite (of_int \<lfloor>double q * 100 + 1 / 2\<rfloor> / 100))"
proof -
  have d: "0 \<le> double q" using assms by (rule double_nonneg)
  then have a: "\<bar>double q\<bar> = double q" by (rule abs_of_nonneg)
  show ?thesis
  proof (cases "2 ^ 1024 \<le> double q")
    case True
    then have "double q \<noteq> 0" by auto
    then have "q \<noteq> 0" by (auto simp: double_def)
    with assms have "0 < q" by simp
    with True show ?thesis
      by (simp add: toDouble_def a numberOfToFixed_def)
  next
    case False
    then have t: "toDouble q = Finite (double q)"
      by (simp add: toDouble_def a)
    show ?thesis
    proof (cases "10 ^ 21 \<le> double q")
      case True
      then have "toFixedNumber 2 (double q) = double q"
        unfolding toFixedNumber_def a by simp
      with True False show ?thesis
        by (simp add: t numberOfToFixed_def)
    next
      case big: False
      then have "double q < 10 ^ 21" by simp
      from toFixedNumber_nonneg [OF d this, of 2] False big show ?thesis
        by (simp add: t numberOfToFixed_def)
    qed
  qed
qed

text \<open>
  C7, as stated, fails at a monthly income of 2000 against a debt of 3: the bracket is
  \<open>low\<close>, not \<open>mid\<close>, and the ratio is 666.67, not \<open>2000 / 3\<close>.
\<close>

theorem C7_counterexample:
  "incomeBracket (deriveStripeIncomeFeatures 2000 3) \<noteq> ''mid''
   \<and> incomeDebtRatio (deriveStripeIncomeFeatures 2000 3) = Finite (66667 / 100)
   \<and> incomeDebtRatio (deriveStripeIncomeFeatures 2000 3) \<noteq> Finite (2000 / 3)"
proof -
  have "(0 :: rat) \<le> 2000 / 3" by simp
  from incomeDebtRatio_cases [OF this]
  have "numberOfToFixed 2 (toDouble (2000 / 3)) = Finite (66667 / 100)"
    by (simp add: double_examples)
  then show ?thesis
    by (simp add: deriveStripeIncomeFeatures_def)
qed

text \<open>
  C7, amended.  For a monthly income and a debt that are not negative,
  \<open>incomeVerified\<close> holds iff the income is positive; the bracket is \<open>low\<close> iff the
  income is at most 2000, \<open>mid\<close> iff it is above 2000 and at most 5000, \<open>high\<close> iff it is
  above 5000; the ratio is the income itself when the debt is 0, and otherwise
  \<open>Number((income / debt).toFixed(2))\<close>: with \<open>q\<close> the double quotient, the hundredth
  nearest to \<open>q\<close> (a tie going up) when \<open>q\<close> is below \<open>10^21\<close>, and \<open>q\<close> itself
  from there on, an infinity included.
\<close>

theorem C7_income_features:
  assumes "0 \<le> income" "0 \<le> owed"
  shows "(incomeVerified (deriveStripeIncomeFeatures income owed) \<longleftrightarrow> income > 0)
    \<and> (incomeBracket (deriveStripeIncomeFeatures income owed) = ''low'' \<longleftrightarrow> income \<le> 2000)
    \<and> (incomeBracket (deriveStripeIncomeFeatures income owed) = ''mid''
          \<longleftrightarrow> 2000 < income \<and> income \<le> 5000)
    \<and> (incomeBracket (deriveStripeIncomeFeatures income owed) = ''high'' \<longleftrightarrow> income > 5000)
    \<and> (owed = 0 \<longrightarrow>
          incomeDebtRatio (deriveStripeIncomeFeatures income owed) = Finite income)
    \<and> (owed \<noteq> 0 \<and> double (income / owed) < 10 ^ 21 \<longrightarrow>
          incomeDebtRatio (deriveStripeIncomeFeatures income owed)
            = Finite (of_int \<lfloor>double (income / owed) * 100 + 1 / 2\<rfloor> / 100))
    \<and> (owed \<noteq> 0 \<and> 10 ^ 21 \<le> double (income / owed) \<and> double (income / owed) < 2 ^ 1024
          \<longrightarrow> incomeDebtRatio (deriveStripeIncomeFeatures income owed)
                = Finite (double (income / owed)))
    \<and> (owed \<noteq> 0 \<and> 2 ^ 1024 \<le> double (income / owed) \<longrightarrow>
          incomeDebtRatio (deriveStripeIncomeFeatures income owed) = PlusInfinity)"
proof -
  have q: "0 \<le> income / owed" using assms by simp
  have ratio: "incomeDebtRatio (deriveStripeIncomeFeatures income owed)
      = (if owed = 0 then Finite income
         else if 2 ^ 1024 \<le> double (income / owed) then PlusInfinity
         else if 10 ^ 21 \<le> double (income / owed) then Finite (double (income / owed))
         else Finite (of_int \<lfloor>double (income / owed) * 100 + 1 / 2\<rfloor> / 100))"
    by (simp add: deriveStripeIncomeFeatures_def incomeDebtRatio_cases [OF q])
  have rest: "incomeVerified (deriveStripeIncomeFeatures income owed) = (income > 0)"
    "incomeBracket (deriveStripeIncomeFeatures income owed)
      = (if income > 5000 then ''high'' else if income > 2000 then ''mid'' else ''low'')"
    by (simp_all add: deriveStripeIncomeFeatures_def)
  have lt: "(10 :: rat) ^ 21 < 2 ^ 1024" by simp
  show ?thesis
    unfolding ratio rest using lt by auto
qed

text \<open>
  The amended C7 at the incomes 0, 2000, 5000 and 5001, and at the quotients 2000/3,
  201/200 and 3/40: the doubles nearest to 1.005 and 0.075 lie below them, and the
  ratios are 1 and 0.07.
\<close>

theorem C7_income_features_witness:
  "(0::rat) \<le> 2000 \<and> (0::rat) \<le> 3
   \<and> \<not> incomeVerified (deriveStripeIncomeFeatures 0 0)
   \<and> incomeVerified (deriveStripeIncomeFeatures 2000 3)
   \<and> incomeBracket (deriveStripeIncomeFeatures 2000 3) = ''low''
   \<and> incomeBracket (deriveStripeIncomeFeatures 5000 3) = ''mid''
   \<and> incomeBracket (deriveStripeIncomeFeatures 5001 3) = ''high''
   \<and> incomeDebtRatio (deriveStripeIncomeFeatures 2000 0) = Finite 2000
   \<and> incomeDebtRatio (deriveStripeIncomeFeatures 2000 3) = Finite (66667 / 100)
   \<and> incomeDebtRatio (deriveStripeIncomeFeatures 201 200) = Finite 1
   \<and> incomeDebtRatio (deriveStripeIncomeFeatures 3 40) = Finite (7 / 100)"
  using C7_income_features [of 2000 3] C7_income_features [of 0 0]
    C7_income_features [of 5000 3] C7_income_features [of 5001 3]
    C7_income_features [of 2000 0] C7_income_features [of 201 200]
    C7_income_features [of 3 40]
  by (simp add: double_examples)

section \<open>Properties of the verified income\<close>

lemma floor_half: "\<lfloor>rat_of_int n / 2\<rfloor> = n div 2"
  using floor_divide_of_int_eq [of n 2, where ?'a = rat] by simp

text \<open>
  C9.  \<open>getVerifiedIncome\<close> returns 0 for a missing profile and for a profile without
  a verification hash, and otherwise \<open>min(200 + floor(tigerScore * 0.5), 10000)\<close>; a
  verified profile with score 250 has the verified income 325.
\<close>

theorem C9_verified_income:
  "getVerifiedIncome None = 0
   \<and> (humanVerifiedVcHash p = None \<longrightarrow> getVerifiedIncome (Some p) = 0)
   \<and> (humanVerifiedVcHash p \<noteq> None \<longrightarrow>
        getVerifiedIncome (Some p) = min (200 + scoreOf p div 2) 10000)
   \<and> (humanVerifiedVcHash p \<noteq> None \<and> tigerScore p = 250 \<longrightarrow>
        getVerifiedIncome (Some p) = 325)"
proof -
  have "tigerScore p = 250 \<Longrightarrow> scoreOf p = 250"
    by (simp add: scoreOf_def)
  then show ?thesis
    by (auto simp add: getVerifiedIncome_def floor_half)
qed

text \<open>
  The verified profile with score 250, and the same profile without its hash.
\<close>

theorem C9_verified_income_witness:
  "humanVerifiedVcHash (verifiedProfile 250) \<noteq> None
   \<and> tigerScore (verifiedProfile 250) = 250
   \<and> getVerifiedIncome (Some (verifiedProfile 250)) = 325
   \<and> humanVerifiedVcHash ((verifiedProfile 250)\<lparr>humanVerifiedVcHash := None\<rparr>) = None
   \<and> getVerifiedIncome (Some ((verifiedProfile 250)\<lparr>humanVerifiedVcHash := None\<rparr>)) = 0"
  using C9_verified_income [of "verifiedProfile 250"]
    C9_verified_income [of "(verifiedProfile 250)\<lparr>humanVerifiedVcHash := None\<rparr>"]
  by (simp add: verifiedProfile_def)

section \<open>Properties of the feature aggregator\<close>

lemma buildFeatures_Some:
  assumes "buildFeatures chain now1 now2 = Some f"
  obtains stats assets regularity where
    "getWalletTxStats chain now1 = Some stats"
    "getTokenAccountStats chain = Some assets"
    "getActivityRegularity chain now2 = Some regularity"
    "f = \<lparr>txCount = stTxCount stats,
                walletAgeDays = stWalletAgeDays stats,
                nftCount = stNftCount assets,
                tokenCount = stTokenCount assets,
                successfulRepayments = 0,
                defaults = 0,
                humanVerified = False,
                hasVC = (stTokenCount assets > 0),
                activeDaysLast30 = Some (rgActiveDaysLast30 regularity),
                avgTxPerActiveDay = Some (rgAvgTxPerActiveDay regularity),
                activityRegularityScore =
                  Some (rgActivityRegularityScore regularity)\<rparr>"
  using assms unfolding buildFeatures_def
  by (auto split: option.splits)

lemma buildFeatures_fixed:
  assumes "buildFeatures chain now1 now2 = Some f"
  shows "humanVerified f = False" "successfulRepayments f = 0" "defaults f = 0"
    "hasVC f = (tokenCount f > 0)"
  using assms by (auto elim!: buildFeatures_Some)

lemma buildFeatures_returns:
  "(\<exists>f. buildFeatures chain now1 now2 = Some f) \<longleftrightarrow>
     keyValid chain \<and> signaturesLimit1000 chain \<noteq> None
     \<and> parsedTokenAccounts chain \<noteq> None \<and> signaturesLimit500 chain \<noteq> None"
  by (auto simp: buildFeatures_def getWalletTxStats_def getTokenAccountStats_def
      getActivityRegularity_def Let_def split: option.splits)

lemma preClampSum_extend:
  "preClampSum (WalletFeatures.extend f e) = preClampSum f"
  by (simp add: preClampSum_def WalletFeatures.defs)

lemma activity_extend:
  "activityRegularityScore (WalletFeatures.extend f e) = activityRegularityScore f"
  by (simp add: WalletFeatures.defs)

lemma tokenCount_extend:
  "tokenCount (WalletFeatures.extend f e) = tokenCount f"
  by (simp add: WalletFeatures.defs)

lemma computeTigerScore_extend:
  "computeTigerScore (WalletFeatures.extend f e) = computeTigerScore f"
  by (simp only: computeTigerScore_unfold preClampSum_extend activity_extend)

lemma preClampSum_built:
  assumes "buildFeatures chain now1 now2 = Some f"
  shows "preClampSum f =
     300 + (if walletAgeDays f > 180 then 40 else 0) + (if txCount f > 100 then 40 else 0)
     + (if nftCount f > 0 then 20 else 0) + (if tokenCount f > 0 then 30 else 0)"
  using buildFeatures_fixed [OF assms] by (simp add: preClampSum_def)

lemma preClampSum_built_range:
  assumes "buildFeatures chain now1 now2 = Some f"
  shows "300 \<le> preClampSum f \<and> preClampSum f \<le> 430"
  unfolding preClampSum_built [OF assms] by simp

lemma tokenCount_built:
  assumes "buildFeatures chain now1 now2 = Some f"
  shows "\<exists>accounts. parsedTokenAccounts chain = Some accounts
           \<and> tokenCount f = int (length accounts)"
  using assms
  by (auto simp: getTokenAccountStats_def split: if_splits option.splits
      elim!: buildFeatures_Some)

lemma computeTigerScore_built:
  assumes b: "buildFeatures chain now1 now2 = Some f"
  shows "computeTigerScore f =
           300 + (if walletAgeDays f > 180 then 40 else 0)
           + (if txCount f > 100 then 40 else 0)
           + (if nftCount f > 0 then 20 else 0)
           + (if tokenCount f > 0 then 30 else 0)
           + (if activityBonusApplies (activityRegularityScore f) then 40 else 0)"
proof -
  have "max 0 (min 1000 (preClampSum f)) = preClampSum f"
    using preClampSum_built_range [OF b] by simp
  then show ?thesis
    by (simp only: computeTigerScore_unfold preClampSum_built [OF b])
qed

lemma riskRecalculate_RiskScore:
  assumes "riskRecalculate req chain now1 now2 = RiskScore score tier features"
  obtains f e where "buildFeatures chain now1 now2 = Some f"
    "features = WalletFeatures.extend f e" "score = computeTigerScore features"
  using assms
  by (auto simp: riskRecalculate_def Let_def split: if_splits option.splits)

text \<open>
  C10.  Every feature record that \<open>buildFeatures\<close> returns has
  \<open>humanVerified = false\<close>, \<open>successfulRepayments = 0\<close>, \<open>defaults = 0\<close> and
  \<open>hasVC = (tokenCount > 0)\<close>.  So a score answered by the route
  \<open>/risk/recalculate\<close> is 300 plus the wallet-age, transaction, NFT and activity terms,
  without the human-verification, repayment and default terms, and with the +30
  credential bonus exactly when the wallet has at least one token account.
\<close>

theorem C10_recalculate_terms:
  "(\<forall>f. buildFeatures chain now1 now2 = Some f \<longrightarrow>
       humanVerified f = False \<and> successfulRepayments f = 0 \<and> defaults f = 0
       \<and> hasVC f = (tokenCount f > 0))
   \<and> (\<forall>score tier features.
         riskRecalculate req chain now1 now2 = RiskScore score tier features \<longrightarrow>
           score =
             300 + (if walletAgeDays features > 180 then 40 else 0)
             + (if txCount features > 100 then 40 else 0)
             + (if nftCount features > 0 then 20 else 0)
             + (if tokenCount features > 0 then 30 else 0)
             + (if activityBonusApplies (activityRegularityScore features) then 40 else 0)
           \<and> (\<exists>accounts. parsedTokenAccounts chain = Some accounts
                 \<and> (tokenCount features > 0) = (accounts \<noteq> [])))"
proof (intro conjI allI impI)
  fix f assume b: "buildFeatures chain now1 now2 = Some f"
  from buildFeatures_fixed [OF b]
  show "humanVerified f = False" "successfulRepayments f = 0" "defaults f = 0"
    "hasVC f = (tokenCount f > 0)" by simp_all
next
  fix score tier features
  assume r: "riskRecalculate req chain now1 now2 = RiskScore score tier features"
  then obtain f e where b: "buildFeatures chain now1 now2 = Some f"
    and fe: "features = WalletFeatures.extend f e"
    and sc: "score = computeTigerScore features"
    by (rule riskRecalculate_RiskScore)
  have fields: "walletAgeDays features = walletAgeDays f" "txCount features = txCount f"
    "nftCount features = nftCount f" "tokenCount features = tokenCount f"
    "activityRegularityScore features = activityRegularityScore f"
    by (simp_all add: fe WalletFeatures.defs)
  have "score = computeTigerScore f"
    by (simp only: sc fe computeTigerScore_extend)
  then show "score =
             300 + (if walletAgeDays features > 180 then 40 else 0)
             + (if txCount features > 100 then 40 else 0)
             + (if nftCount features > 0 then 20 else 0)
             + (if tokenCount features > 0 then 30 else 0)
             + (if activityBonusApplies (activityRegularityScore features) then 40 else 0)"
    by (simp only: fields computeTigerScore_built [OF b])
  from tokenCount_built [OF b] obtain accounts where
    "parsedTokenAccounts chain = Some accounts" "tokenCount f = int (length accounts)"
    by blast
  then show "\<exists>accounts. parsedTokenAccounts chain = Some accounts
                 \<and> (tokenCount features > 0) = (accounts \<noteq> [])"
    by (simp add: fields)
qed

text \<open>
  The route on a wallet with seventeen signatures on eleven days and two token accounts,
  one of them NFT-like: the score is \<open>300 + 20 + 30 + 40\<close>.
\<close>

theorem C10_recalculate_terms_witness:
  "buildFeatures elevenDaysChain 1036800000 1036800000 =
     Some \<lparr>txCount = 17, walletAgeDays = 11, nftCount = 1, tokenCount = 2,
           successfulRepayments = 0, defaults = 0, humanVerified = False, hasVC = True,
           activeDaysLast30 = Some 11, avgTxPerActiveDay = Some (155 / 100),
           activityRegularityScore = Some 48\<rparr>
   \<and> riskRecalculate \<lparr>wallet = Some ''G3X'', monthlyIncome = Some 3000, debt = None\<rparr>
         elevenDaysChain 1036800000 1036800000 =
       RiskScore 390 ''Bronze''
         \<lparr>txCount = 17, walletAgeDays = 11, nftCount = 1, tokenCount = 2,
          successfulRepayments = 0, defaults = 0, humanVerified = False, hasVC = True,
          activeDaysLast30 = Some 11, avgTxPerActiveDay = Some (155 / 100),
          activityRegularityScore = Some 48,
          incomeVerified = True, incomeBracket = ''mid'', incomeDebtRatio = Finite 3000\<rparr>
   \<and> (390 :: int) = 300 + 0 + 0 + 20 + 30 + 40"
proof -
  have g: "getActivityRegularity elevenDaysChain 1036800000 =
     Some \<lparr>rgActiveDaysLast30 = 11, rgAvgTxPerActiveDay = 155 / 100,
           rgActivityRegularityScore = 48\<rparr>"
    by (simp add: getActivityRegularity_def elevenDaysChain_def elevenDays_def isRecent_def
      THIRTY_DAYS_def utcDay_def toFixedNumber_def toFixedNearest_def mathRound_def)
  have w: "getWalletTxStats elevenDaysChain 1036800000 =
     Some \<lparr>stTxCount = 17, stWalletAgeDays = 11\<rparr>"
    by (simp add: getWalletTxStats_def elevenDaysChain_def elevenDays_def truthyNumber_def)
  have t: "getTokenAccountStats elevenDaysChain = Some \<lparr>stTokenCount = 2, stNftCount = 1\<rparr>"
    by (simp add: getTokenAccountStats_def elevenDaysChain_def nftLike_def)
  have b: "buildFeatures elevenDaysChain 1036800000 1036800000 =
     Some \<lparr>txCount = 17, walletAgeDays = 11, nftCount = 1, tokenCount = 2,
           successfulRepayments = 0, defaults = 0, humanVerified = False, hasVC = True,
           activeDaysLast30 = Some 11, avgTxPerActiveDay = Some (155 / 100),
           activityRegularityScore = Some 48\<rparr>"
    by (simp add: buildFeatures_def g w t)
  have r: "riskRecalculate \<lparr>wallet = Some ''G3X'', monthlyIncome = Some 3000, debt = None\<rparr>
         elevenDaysChain 1036800000 1036800000 =
       RiskScore 390 ''Bronze''
         \<lparr>txCount = 17, walletAgeDays = 11, nftCount = 1, tokenCount = 2,
          successfulRepayments = 0, defaults = 0, humanVerified = False, hasVC = True,
          activeDaysLast30 = Some 11, avgTxPerActiveDay = Some (155 / 100),
          activityRegularityScore = Some 48,
          incomeVerified = True, incomeBracket = ''mid'', incomeDebtRatio = Finite 3000\<rparr>"
    by (simp add: riskRecalculate_def b truthyString_def deriveStripeIncomeFeatures_def
        WalletFeatures.defs computeTigerScore_def activityBonusApplies_def getTier_def)
  show ?thesis
    using C10_recalculate_terms [of elevenDaysChain 1036800000 1036800000
        "\<lparr>wallet = Some ''G3X'', monthlyIncome = Some 3000, debt = None\<rparr>"] b r
    by simp
qed

section \<open>Properties of the activity regularity\<close>


lemma activeDays_le_recent:
  "card (utcDay ` set (filter (isRecent now) sigs)) \<le> length (filter (isRecent now) sigs)"
  by (metis card_image_le card_length le_trans List.finite_set)




section \<open>Properties of the tier scan\<close>

lemma tier_mins:
  "minTigerScore (LOAN_TIERS ! 0) = 0" "minTigerScore (LOAN_TIERS ! Suc 0) = 200"
  "minTigerScore (LOAN_TIERS ! 2) = 400" "minTigerScore (LOAN_TIERS ! 3) = 600"
  by (simp_all add: LOAN_TIERS_def)

lemma tier_levels:
  "level (LOAN_TIERS ! 0) = 0" "level (LOAN_TIERS ! Suc 0) = 1"
  "level (LOAN_TIERS ! 2) = 2" "level (LOAN_TIERS ! 3) = 3"
  by (simp_all add: LOAN_TIERS_def)

lemma appropriateTier_cases:
  "appropriateTier score =
     (if score \<ge> 600 then Some (LOAN_TIERS ! 3)
      else if score \<ge> 400 then Some (LOAN_TIERS ! 2)
      else if score \<ge> 200 then Some (LOAN_TIERS ! 1)
      else if score \<ge> 0 then Some (LOAN_TIERS ! 0)
      else None)"
proof -
  have s0: "tierScan LOAN_TIERS score (- 1) = None"
    by (subst tierScan.simps) simp
  have s1: "tierScan LOAN_TIERS score 0 =
      (if score \<ge> 0 then Some (LOAN_TIERS ! 0) else None)"
    by (subst tierScan.simps) (simp add: s0 tier_mins)
  have s2: "tierScan LOAN_TIERS score 1 =
      (if score \<ge> 200 then Some (LOAN_TIERS ! 1) else tierScan LOAN_TIERS score 0)"
    by (subst tierScan.simps) (simp add: tier_mins)
  have s3: "tierScan LOAN_TIERS score 2 =
      (if score \<ge> 400 then Some (LOAN_TIERS ! 2) else tierScan LOAN_TIERS score 1)"
    by (subst tierScan.simps) (simp add: tier_mins)
  have s4: "tierScan LOAN_TIERS score 3 =
      (if score \<ge> 600 then Some (LOAN_TIERS ! 3) else tierScan LOAN_TIERS score 2)"
    by (subst tierScan.simps) (simp add: tier_mins)
  have "int (length LOAN_TIERS) - 1 = 3"
    by (simp add: LOAN_TIERS_def)
  then show ?thesis
    by (simp add: appropriateTier_def s1 s2 s3 s4)
qed

lemma appropriateTier_resolves: "(\<exists>t. appropriateTier score = Some t) \<longleftrightarrow> score \<ge> 0"
  by (simp add: appropriateTier_cases)

text \<open>
  C3.  Tier resolution over \<open>LOAN_TIERS\<close> is monotone: of two scores that both resolve
  to a tier, the smaller one resolves to a level that is not higher.
\<close>

theorem C3_tier_monotone:
  assumes "s1 \<le> s2" "appropriateTier s1 = Some t1" "appropriateTier s2 = Some t2"
  shows "level t1 \<le> level t2"
  using assms
  by (auto simp: appropriateTier_cases tier_levels split: if_splits)

text \<open>
  The scores 250 and 450 resolve to the levels 1 and 2.
\<close>

theorem C3_tier_monotone_witness:
  "(250 :: int) \<le> 450
   \<and> appropriateTier 250 = Some (LOAN_TIERS ! 1)
   \<and> appropriateTier 450 = Some (LOAN_TIERS ! 2)
   \<and> level (LOAN_TIERS ! 1) \<le> level (LOAN_TIERS ! 2)
   \<and> level (LOAN_TIERS ! 1) = 1 \<and> level (LOAN_TIERS ! 2) = 2"
proof -
  have a: "appropriateTier 250 = Some (LOAN_TIERS ! 1)"
    and b: "appropriateTier 450 = Some (LOAN_TIERS ! 2)"
    by (simp_all add: appropriateTier_cases)
  have c: "(250 :: int) \<le> 450" by simp
  show ?thesis
    using C3_tier_monotone [OF c a b] a b by (simp add: tier_levels)
qed

section \<open>Properties of the deserialization\<close>

lemma getUserProfile_stored [simp]: "getUserProfile stored = stored"
  by (simp add: getUserProfile_def borshDeserialize_def USER_PROFILE_SCHEMA_def
      readerTypes_def)

lemma loanAccount_unreadable: "borshDeserialize LOAN_ACCOUNT_SCHEMA stored = None"
  by (simp add: borshDeserialize_def LOAN_ACCOUNT_SCHEMA_def readerTypes_def)

lemma getOutstandingLoans_empty: "getOutstandingLoans accounts = []"
  by (induction accounts) (simp_all add: loanAccount_unreadable)

lemma outstandingDebtUSD_Nil: "outstandingDebtUSD [] = 0"
  by (simp add: outstandingDebtUSD_def)

lemma no_debt: "outstandingDebtUSD (getOutstandingLoans accounts) = 0"
  by (simp only: getOutstandingLoans_empty outstandingDebtUSD_Nil)

section \<open>Properties of the apply handler\<close>

lemma lookupTerm_empty: "lookupTerm [] = None"
  by (simp add: lookupTerm_def REPAYMENT_TERMS_def inheritedKeys_def)

lemma applyForLoan_valid:
  assumes "truthyString (walletAddress req)" "loanAmount req = JNumber amount" "amount > 0"
    "repaymentTerm req = Some key" "lookupTerm key = Some entry" "addressValid world"
  shows "applyForLoan req world = decideLoan amount key entry world"
proof -
  have "key \<noteq> []" using assms(5) lookupTerm_empty by auto
  then have "truthyString (repaymentTerm req)"
    by (simp add: truthyString_def assms(4))
  moreover have "truthy (loanAmount req)" using assms(2,3) by simp
  ultimately show ?thesis
    using assms by (simp add: applyForLoan_def)
qed

lemma applyForLoan_Approved:
  assumes "applyForLoan req world = Approved terms"
  obtains amount key entry where "loanAmount req = JNumber amount" "amount > 0"
    "repaymentTerm req = Some key" "lookupTerm key = Some entry"
    "decideLoan amount key entry world = Approved terms"
proof -
  from assms have t: "truthyString (repaymentTerm req)"
    by (auto simp: applyForLoan_def split: if_splits)
  then obtain key where k: "repaymentTerm req = Some key"
    by (auto simp: truthyString_def split: option.splits)
  from assms obtain amount where a: "loanAmount req = JNumber amount"
    by (cases "loanAmount req") (auto simp: applyForLoan_def split: if_splits)
  from assms a k have "amount > 0"
    by (auto simp: applyForLoan_def split: if_splits)
  moreover from assms a k obtain entry where "lookupTerm key = Some entry"
    "decideLoan amount key entry world = Approved terms"
    by (auto simp: applyForLoan_def split: if_splits option.splits)
  ultimately show ?thesis using a k that by blast
qed

lemma decideLoan_gated:
  assumes "profileAccount world = Some p" "appropriateTier (scoreOf p) = Some tier"
    "getVerifiedIncome (Some p) \<ge> MIN_REQUIRED_INCOME_PROOF"
  shows "decideLoan amount key entry world =
     (let debtUSD = outstandingDebtUSD (getOutstandingLoans (loanAccounts world));
          currentDti = debtUSD / of_int (getVerifiedIncome (Some p))
      in if currentDti > maxDtiRatio tier
         then Rejected 200 HighDebtToIncome
            [Lit ''High Debt-to-Income Ratio ('', toFixed 1 (currentDti * 100),
             Lit ''%). Maximum allowed: '', toFixed 1 (maxDtiRatio tier * 100),
             Lit ''%'']
         else if \<lfloor>randomDraw world * 3\<rfloor> \<ge> loanApplicationVelocityLimit tier
         then Rejected 200 VelocityExceeded
            [Lit ''Too many recent loan applications ('',
             Num (of_int \<lfloor>randomDraw world * 3\<rfloor>),
             Lit ''). Please wait before applying again.'']
         else if amount > of_int (maxApprovedLoanAmount tier p)
                 \<and> maxApprovedLoanAmount tier p < 10
         then Rejected 200 AmountTooLow
            [Lit ''Requested amount ($'', Num amount,
             Lit '') exceeds maximum approved amount ($'',
             Num (of_int (maxApprovedLoanAmount tier p)),
             Lit ''). Please build your TigerScore first.'']
         else Approved (proposeTerms amount key entry tier p debtUSD (clock world)))"
  using assms by (simp add: decideLoan_def Let_def)

lemma decideLoan_Approved:
  assumes "decideLoan amount key entry world = Approved terms"
  obtains p tier where "profileAccount world = Some p"
    "appropriateTier (scoreOf p) = Some tier"
    "terms = proposeTerms amount key entry tier p
       (outstandingDebtUSD (getOutstandingLoans (loanAccounts world))) (clock world)"
proof -
  from assms obtain p where p: "profileAccount world = Some p"
    by (auto simp: decideLoan_def split: option.splits)
  from assms p obtain tier where t: "appropriateTier (scoreOf p) = Some tier"
    by (auto simp: decideLoan_def split: option.splits)
  from assms p t have i: "getVerifiedIncome (Some p) \<ge> MIN_REQUIRED_INCOME_PROOF"
    by (auto simp: decideLoan_def Let_def split: if_splits)
  from assms have "terms = proposeTerms amount key entry tier p
       (outstandingDebtUSD (getOutstandingLoans (loanAccounts world))) (clock world)"
    unfolding decideLoan_gated [OF p t i] Let_def
    by (auto split: if_splits)
  with p t that show ?thesis by blast
qed

lemma proposeTerms_amounts:
  "approvedAmount (proposeTerms amount key entry tier p debtUSD now)
     = min amount (of_int (maxApprovedLoanAmount tier p))"
  "requestedAmount (proposeTerms amount key entry tier p debtUSD now) = amount"
  by (simp_all add: proposeTerms_def Let_def)

lemma maxApprovedLoanAmount_min:
  "(of_int (maxApprovedLoanAmount tier p) :: rat) =
     min (of_int (maxLoanLimit tier))
       (min (of_int \<lfloor>of_int (scoreOf p) * (8 / 10 :: rat)\<rfloor>)
            (of_int \<lfloor>of_int (getVerifiedIncome (Some p)) * (3 / 10 :: rat)\<rfloor>))"
  unfolding maxApprovedLoanAmount_def Let_def
  by (simp only: of_int_min)

text \<open>
  C4.  For every application that the apply handler approves, the approved amount is
  \<open>min(requestedAmount, tier.maxLoanLimit, floor(tigerScore * 0.8),
  floor(verifiedIncome * 0.3))\<close>, for the tier resolved from the profile's score; it
  never exceeds the requested amount.
\<close>

theorem C4_approved_amount:
  assumes "applyForLoan req world = Approved terms"
  shows "\<exists>p tier amount.
     profileAccount world = Some p \<and> appropriateTier (scoreOf p) = Some tier
     \<and> loanAmount req = JNumber amount \<and> requestedAmount terms = amount
     \<and> approvedAmount terms =
         min amount
           (min (of_int (maxLoanLimit tier))
             (min (of_int \<lfloor>of_int (scoreOf p) * (8 / 10 :: rat)\<rfloor>)
                  (of_int \<lfloor>of_int (getVerifiedIncome (Some p)) * (3 / 10 :: rat)\<rfloor>)))
     \<and> approvedAmount terms \<le> requestedAmount terms"
proof -
  from assms obtain amount key entry where a: "loanAmount req = JNumber amount"
    and d: "decideLoan amount key entry world = Approved terms"
    by (rule applyForLoan_Approved)
  from d obtain p tier where p: "profileAccount world = Some p"
    and t: "appropriateTier (scoreOf p) = Some tier"
    and e: "terms = proposeTerms amount key entry tier p
       (outstandingDebtUSD (getOutstandingLoans (loanAccounts world))) (clock world)"
    by (rule decideLoan_Approved)
  have r: "requestedAmount terms = amount"
    and v: "approvedAmount terms = min amount (of_int (maxApprovedLoanAmount tier p))"
    by (simp_all only: e proposeTerms_amounts)
  from v have "approvedAmount terms \<le> requestedAmount terms"
    by (simp add: r)
  with p t a r v show ?thesis
    unfolding maxApprovedLoanAmount_min by blast
qed

section \<open>Concrete requests and worlds\<close>

lemma requestOf_valid:
  "truthyString (walletAddress (requestOf a))" "loanAmount (requestOf a) = JNumber a"
  "repaymentTerm (requestOf a) = Some ''30_days''" "lookupTerm ''30_days'' = Some (Days 30)"
  "addressValid (worldOf p accounts)" "profileAccount (worldOf p accounts) = Some p"
  "loanAccounts (worldOf p accounts) = accounts" "randomDraw (worldOf p accounts) = 0"
  "clock (worldOf p accounts) = 1700000000000"
  by (simp_all add: requestOf_def worldOf_def truthyString_def lookupTerm_def
      REPAYMENT_TERMS_def)

lemma verifiedProfile_income:
  "scoreOf (verifiedProfile 10) = 10" "getVerifiedIncome (Some (verifiedProfile 10)) = 205"
  "scoreOf (verifiedProfile 250) = 250" "getVerifiedIncome (Some (verifiedProfile 250)) = 325"
  "scoreOf (verifiedProfile 400) = 400" "getVerifiedIncome (Some (verifiedProfile 400)) = 400"
  "scoreOf (verifiedProfile 50) = 50" "getVerifiedIncome (Some (verifiedProfile 50)) = 225"
  by (simp_all add: scoreOf_def getVerifiedIncome_def verifiedProfile_def)

lemma tier_fields:
  "maxDtiRatio (LOAN_TIERS ! 0) = 2 / 10" "maxDtiRatio (LOAN_TIERS ! Suc 0) = 3 / 10"
  "maxDtiRatio (LOAN_TIERS ! 2) = 4 / 10" "maxDtiRatio (LOAN_TIERS ! 3) = 5 / 10"
  "loanApplicationVelocityLimit (LOAN_TIERS ! 0) = 3"
  "loanApplicationVelocityLimit (LOAN_TIERS ! Suc 0) = 2"
  "loanApplicationVelocityLimit (LOAN_TIERS ! 2) = 1"
  "loanApplicationVelocityLimit (LOAN_TIERS ! 3) = 1"
  "maxLoanLimit (LOAN_TIERS ! 0) = 50" "maxLoanLimit (LOAN_TIERS ! Suc 0) = 150"
  "maxLoanLimit (LOAN_TIERS ! 2) = 500" "maxLoanLimit (LOAN_TIERS ! 3) = 1000"
  by (simp_all add: LOAN_TIERS_def)

lemma maxApproved_examples:
  "maxApprovedLoanAmount (LOAN_TIERS ! 0) (verifiedProfile 10) = 8"
  "maxApprovedLoanAmount (LOAN_TIERS ! Suc 0) (verifiedProfile 250) = 97"
  "maxApprovedLoanAmount (LOAN_TIERS ! 2) (verifiedProfile 400) = 120"
  "maxApprovedLoanAmount (LOAN_TIERS ! 0) (verifiedProfile 50) = 40"
  by (simp_all add: maxApprovedLoanAmount_def verifiedProfile_income tier_fields)

lemma spec_debt_examples:
  "outstandingDebtUSD (specOutstandingLoans [Some (activeLoan 40000000)]) = 40"
  "outstandingDebtUSD (specOutstandingLoans [Some (activeLoan 200000000)]) = 200"
  "outstandingDebtUSD (specOutstandingLoans [Some (activeLoan 325000000)]) = 325"
  by (simp_all add: outstandingDebtUSD_def activeLoan_def)

lemma approve_examples:
  "applyForLoan (requestOf 100) (worldOf (verifiedProfile 250) accounts)
     = Approved (proposeTerms 100 ''30_days'' (Days 30) (LOAN_TIERS ! 1) (verifiedProfile 250)
         0 1700000000000)"
  "applyForLoan (requestOf 100) (worldOf (verifiedProfile 400) accounts)
     = Approved (proposeTerms 100 ''30_days'' (Days 30) (LOAN_TIERS ! 2) (verifiedProfile 400)
         0 1700000000000)"
proof -
  have t1: "appropriateTier (scoreOf (verifiedProfile 250)) = Some (LOAN_TIERS ! 1)"
    and t2: "appropriateTier (scoreOf (verifiedProfile 400)) = Some (LOAN_TIERS ! 2)"
    by (simp_all add: appropriateTier_cases verifiedProfile_income)
  have i1: "getVerifiedIncome (Some (verifiedProfile 250)) \<ge> MIN_REQUIRED_INCOME_PROOF"
    and i2: "getVerifiedIncome (Some (verifiedProfile 400)) \<ge> MIN_REQUIRED_INCOME_PROOF"
    by (simp_all add: verifiedProfile_income MIN_REQUIRED_INCOME_PROOF_def)
  have "applyForLoan (requestOf 100) (worldOf (verifiedProfile 250) accounts)
      = decideLoan 100 ''30_days'' (Days 30) (worldOf (verifiedProfile 250) accounts)"
    by (rule applyForLoan_valid) (simp_all add: requestOf_valid)
  also have "\<dots> = Approved (proposeTerms 100 ''30_days'' (Days 30) (LOAN_TIERS ! 1)
      (verifiedProfile 250) 0 1700000000000)"
    unfolding decideLoan_gated [OF requestOf_valid(6) t1 i1] no_debt Let_def
    by (simp add: requestOf_valid verifiedProfile_income tier_fields maxApproved_examples)
  finally show "applyForLoan (requestOf 100) (worldOf (verifiedProfile 250) accounts)
     = Approved (proposeTerms 100 ''30_days'' (Days 30) (LOAN_TIERS ! 1) (verifiedProfile 250)
         0 1700000000000)" .
  have "applyForLoan (requestOf 100) (worldOf (verifiedProfile 400) accounts)
      = decideLoan 100 ''30_days'' (Days 30) (worldOf (verifiedProfile 400) accounts)"
    by (rule applyForLoan_valid) (simp_all add: requestOf_valid)
  also have "\<dots> = Approved (proposeTerms 100 ''30_days'' (Days 30) (LOAN_TIERS ! 2)
      (verifiedProfile 400) 0 1700000000000)"
    unfolding decideLoan_gated [OF requestOf_valid(6) t2 i2] no_debt Let_def
    by (simp add: requestOf_valid verifiedProfile_income tier_fields maxApproved_examples)
  finally show "applyForLoan (requestOf 100) (worldOf (verifiedProfile 400) accounts)
     = Approved (proposeTerms 100 ''30_days'' (Days 30) (LOAN_TIERS ! 2) (verifiedProfile 400)
         0 1700000000000)" .
qed

text \<open>
  The rounding of the money figures: 36.5 over 7 days at 15 percent has the total
  36.605, whose product with 100 is the double 3660.4999999999995, and the total is
  answered as 36.6.
\<close>

lemma proposeTerms_cents_example:
  "totalRepaymentAmount
     (proposeTerms (73 / 2) ''7_days'' (Days 7) (LOAN_TIERS ! 0) (verifiedProfile 50) 0
        1700000000000) = Some (366 / 10)"
proof -
  have d1: "double (73 / 2 * 15) = 1095 / 2"
    and d2: "double (1095 / 2 * 7) = 7665 / 2"
    and d3: "double (7665 / 2 / (100 * 365)) = 7566047373982433 / 72057594037927936"
    and d4: "double (73 / 2 + 7566047373982433 / 72057594037927936)
      = 5151695761246781 / 140737488355328"
    and d5: "double (5151695761246781 / 140737488355328 * 100)
      = 8049524626948095 / 2199023255552"
    by (simp_all add: double_def binade_def powerOfTwo_def roundHalfEven_def)
  have r: "roundToCents (5151695761246781 / 140737488355328) = 366 / 10"
    unfolding roundToCents_def d5 by (simp add: mathRound_def)
  have rate: "baseInterestRate (LOAN_TIERS ! 0) = 15"
    by (simp add: LOAN_TIERS_def)
  have "totalRepaymentAmount
     (proposeTerms (73 / 2) ''7_days'' (Days 7) (LOAN_TIERS ! 0) (verifiedProfile 50) 0
        1700000000000)
     = Some (roundToCents (double (73 / 2 + double (double (double (73 / 2 * 15) * 7)
         / (100 * 365)))))"
    by (simp add: proposeTerms_def Let_def maxApproved_examples rate)
  also have "\<dots> = Some (366 / 10)"
    by (simp only: d1 d2 d3 d4 r)
  finally show ?thesis .
qed

text \<open>
  Scenario A: score 250, verified income 325, a loan of 40 USDC on the chain; a request
  of 100 is approved at \<open>min(100, 150, 200, 97) = 97\<close>.
\<close>

theorem C4_approved_amount_witness:
  "applyForLoan (requestOf 100) (worldOf (verifiedProfile 250) [Some (activeLoan 40000000)])
     = Approved (proposeTerms 100 ''30_days'' (Days 30) (LOAN_TIERS ! 1) (verifiedProfile 250)
         0 1700000000000)
   \<and> approvedAmount (proposeTerms 100 ''30_days'' (Days 30) (LOAN_TIERS ! 1)
         (verifiedProfile 250) 0 1700000000000) = 97
   \<and> requestedAmount (proposeTerms 100 ''30_days'' (Days 30) (LOAN_TIERS ! 1)
         (verifiedProfile 250) 0 1700000000000) = 100
   \<and> (97 :: rat) = min 100 (min 150 (min 200 97))"
proof -
  note a = approve_examples(1) [of "[Some (activeLoan 40000000)]"]
  show ?thesis
    using C4_approved_amount [OF a] a
    by (simp add: proposeTerms_amounts maxApproved_examples)
qed

section \<open>The debt-to-income gate\<close>

lemma appropriateTier_dti:
  assumes "appropriateTier s = Some tier"
  shows "0 \<le> maxDtiRatio tier"
  using assms
  by (auto simp: appropriateTier_cases tier_fields split: if_splits)

lemma rejectionOf_simps:
  "rejectionOf (Rejected st code msg) = Some code" "rejectionOf (Approved terms) = None"
  by (simp_all add: rejectionOf_def)

lemma decideLoan_never_dti:
  "rejectionOf (decideLoan amount key entry world) \<noteq> Some HighDebtToIncome"
proof (cases "profileAccount world")
  case None
  then show ?thesis by (simp add: decideLoan_def rejectionOf_simps)
next
  case (Some p)
  show ?thesis
  proof (cases "appropriateTier (scoreOf p)")
    case None
    with Some show ?thesis by (simp add: decideLoan_def rejectionOf_simps)
  next
    case tier: (Some tier)
    show ?thesis
    proof (cases "getVerifiedIncome (Some p) \<ge> MIN_REQUIRED_INCOME_PROOF")
      case False
      with Some tier show ?thesis
        by (simp add: decideLoan_def Let_def rejectionOf_simps)
    next
      case True
      have "\<not> 0 / of_int (getVerifiedIncome (Some p)) > maxDtiRatio tier"
        using appropriateTier_dti [OF tier] by simp
      then show ?thesis
        unfolding decideLoan_gated [OF Some tier True] Let_def no_debt
        by (simp only: if_False rejectionOf_simps split: if_split) simp
    qed
  qed
qed

lemma applyForLoan_never_dti:
  "rejectionOf (applyForLoan req world) \<noteq> Some HighDebtToIncome"
  by (simp add: applyForLoan_def rejectionOf_simps decideLoan_never_dti
      split: jsvalue.split option.split)

text \<open>
  C5.  By the claim the handler answers the debt-to-income rejection iff the
  outstanding debt divided by the verified income exceeds the ceiling of the tier.
  The handler never answers it: \<open>LOAN_ACCOUNT_SCHEMA\<close> gives the borrower the type
  \<open>publicKey\<close>, which the reader cannot read, so the deserialization of every loan
  account throws, the account is skipped and the debt is 0.  A verified borrower with
  score 400 (tier 2, ceiling 0.40, verified income 400) who owes 200 USDC on an active
  loan has the ratio 0.5, and a request of 100 is approved.
\<close>

theorem C5_dti_rejection_never_answered:
  "rejectionOf (applyForLoan req world) \<noteq> Some HighDebtToIncome
   \<and> getOutstandingLoans [Some (activeLoan 200000000)] = []
   \<and> outstandingDebtUSD (specOutstandingLoans [Some (activeLoan 200000000)]) = 200
   \<and> getVerifiedIncome (Some (verifiedProfile 400)) = 400
   \<and> appropriateTier (scoreOf (verifiedProfile 400)) = Some (LOAN_TIERS ! 2)
   \<and> maxDtiRatio (LOAN_TIERS ! 2) = 4 / 10
   \<and> (200 / 400 :: rat) > 4 / 10
   \<and> approvedAmountOf (applyForLoan (requestOf 100)
         (worldOf (verifiedProfile 400) [Some (activeLoan 200000000)])) = Some 100"
proof -
  have t: "appropriateTier (scoreOf (verifiedProfile 400)) = Some (LOAN_TIERS ! 2)"
    by (simp add: appropriateTier_cases verifiedProfile_income)
  have a: "approvedAmountOf (applyForLoan (requestOf 100)
         (worldOf (verifiedProfile 400) [Some (activeLoan 200000000)])) = Some 100"
    by (simp add: approve_examples approvedAmountOf_def proposeTerms_amounts
        maxApproved_examples)
  show ?thesis
    by (intro conjI applyForLoan_never_dti getOutstandingLoans_empty spec_debt_examples(2)
        verifiedProfile_income(6) t a) (simp_all add: tier_fields)
qed

text \<open>
  The same for a borrower with score 250 (tier 1, ceiling 0.30, verified income 325)
  who owes 325 USDC: the ratio is 1, and a request of 100 is approved at 97.
\<close>

theorem C5_dti_rejection_never_answered_witness:
  "rejectionOf (applyForLoan (requestOf 100)
      (worldOf (verifiedProfile 250) [Some (activeLoan 325000000)])) \<noteq> Some HighDebtToIncome
   \<and> outstandingDebtUSD (specOutstandingLoans [Some (activeLoan 325000000)]) = 325
   \<and> getVerifiedIncome (Some (verifiedProfile 250)) = 325
   \<and> maxDtiRatio (LOAN_TIERS ! 1) = 3 / 10
   \<and> approvedAmountOf (applyForLoan (requestOf 100)
         (worldOf (verifiedProfile 250) [Some (activeLoan 325000000)])) = Some 97"
proof -
  have a: "approvedAmountOf (applyForLoan (requestOf 100)
         (worldOf (verifiedProfile 250) [Some (activeLoan 325000000)])) = Some 97"
    by (simp add: approve_examples approvedAmountOf_def proposeTerms_amounts
        maxApproved_examples)
  have n: "rejectionOf (applyForLoan (requestOf 100)
      (worldOf (verifiedProfile 250) [Some (activeLoan 325000000)])) \<noteq> Some HighDebtToIncome"
    using C5_dti_rejection_never_answered
      [of "requestOf 100" "worldOf (verifiedProfile 250) [Some (activeLoan 325000000)]"]
    by (rule conjunct1)
  show ?thesis
    by (intro conjI n spec_debt_examples(3) verifiedProfile_income(4) a)
      (simp_all add: tier_fields)
qed

section \<open>The amount floor\<close>

text \<open>
  C6, as stated, fails for a verified profile with score 10: the maximum eligible
  amount is \<open>min(50, 8, 61) = 8\<close>, below the floor of 10, and a request of 5 is
  approved at 5.
\<close>

theorem C6_counterexample:
  "appropriateTier (scoreOf (verifiedProfile 10)) = Some (LOAN_TIERS ! 0)
   \<and> maxApprovedLoanAmount (LOAN_TIERS ! 0) (verifiedProfile 10) = 8
   \<and> approvedAmountOf (applyForLoan (requestOf 5) (worldOf (verifiedProfile 10) [])) = Some 5
   \<and> rejectionOf (applyForLoan (requestOf 5) (worldOf (verifiedProfile 10) [])) = None"
proof -
  let ?w = "worldOf (verifiedProfile 10) []"
  have t: "appropriateTier (scoreOf (verifiedProfile 10)) = Some (LOAN_TIERS ! 0)"
    by (simp add: appropriateTier_cases verifiedProfile_income)
  have i: "getVerifiedIncome (Some (verifiedProfile 10)) \<ge> MIN_REQUIRED_INCOME_PROOF"
    by (simp add: verifiedProfile_income MIN_REQUIRED_INCOME_PROOF_def)
  have "applyForLoan (requestOf 5) ?w = decideLoan 5 ''30_days'' (Days 30) ?w"
    by (rule applyForLoan_valid) (simp_all add: requestOf_valid)
  also have "\<dots> = Approved (proposeTerms 5 ''30_days'' (Days 30) (LOAN_TIERS ! 0)
      (verifiedProfile 10) 0 1700000000000)"
    unfolding decideLoan_gated [OF requestOf_valid(6) t i] no_debt Let_def
    by (simp add: requestOf_valid verifiedProfile_income tier_fields maxApproved_examples)
  finally show ?thesis
    using t by (simp add: approvedAmountOf_def rejectionOf_def proposeTerms_amounts
        maxApproved_examples)
qed

text \<open>
  C6, amended.  Once the earlier gates have passed and the maximum eligible amount is
  below 10, the handler rejects with the amount rejection exactly the requests above
  the maximum eligible amount; a request that does not exceed it is approved in full.
\<close>

theorem C6_amount_floor:
  assumes "truthyString (walletAddress req)" "loanAmount req = JNumber amount" "amount > 0"
    "repaymentTerm req = Some key" "lookupTerm key = Some entry" "addressValid world"
    and "profileAccount world = Some p" "appropriateTier (scoreOf p) = Some tier"
    "getVerifiedIncome (Some p) \<ge> MIN_REQUIRED_INCOME_PROOF"
    and "outstandingDebtUSD (getOutstandingLoans (loanAccounts world))
           / of_int (getVerifiedIncome (Some p)) \<le> maxDtiRatio tier"
    and "\<lfloor>randomDraw world * 3\<rfloor> < loanApplicationVelocityLimit tier"
    and "maxApprovedLoanAmount tier p < 10"
  shows "(amount > of_int (maxApprovedLoanAmount tier p) \<longrightarrow>
           applyForLoan req world =
             Rejected 200 AmountTooLow
               [Lit ''Requested amount ($'', Num amount,
                Lit '') exceeds maximum approved amount ($'',
                Num (of_int (maxApprovedLoanAmount tier p)),
                Lit ''). Please build your TigerScore first.''])
       \<and> (amount \<le> of_int (maxApprovedLoanAmount tier p) \<longrightarrow>
           approvedAmountOf (applyForLoan req world) = Some amount)
       \<and> (rejectionOf (applyForLoan req world) = Some AmountTooLow
            \<longleftrightarrow> amount > of_int (maxApprovedLoanAmount tier p))"
proof -
  have a: "applyForLoan req world = decideLoan amount key entry world"
    using assms(1-6) by (rule applyForLoan_valid)
  note g = decideLoan_gated [OF assms(7-9), of amount key entry, unfolded Let_def]
  have d: "\<not> outstandingDebtUSD (getOutstandingLoans (loanAccounts world))
           / of_int (getVerifiedIncome (Some p)) > maxDtiRatio tier"
    using assms(10) by simp
  have v: "\<not> \<lfloor>randomDraw world * 3\<rfloor> \<ge> loanApplicationVelocityLimit tier"
    using assms(11) by simp
  have e: "applyForLoan req world =
      (if amount > of_int (maxApprovedLoanAmount tier p)
       then Rejected 200 AmountTooLow
               [Lit ''Requested amount ($'', Num amount,
                Lit '') exceeds maximum approved amount ($'',
                Num (of_int (maxApprovedLoanAmount tier p)),
                Lit ''). Please build your TigerScore first.'']
       else Approved (proposeTerms amount key entry tier p
              (outstandingDebtUSD (getOutstandingLoans (loanAccounts world)))
              (clock world)))"
    unfolding a g using d v assms(12) by (simp only: if_False simp_thms)
  show ?thesis
    unfolding e
    by (simp add: approvedAmountOf_def rejectionOf_def proposeTerms_amounts)
qed

text \<open>
  Scenario E: with a maximum eligible amount of 8 a request of 100000 is rejected,
  a request of 5 is approved.
\<close>

theorem C6_amount_floor_witness:
  "maxApprovedLoanAmount (LOAN_TIERS ! 0) (verifiedProfile 10) = 8
   \<and> applyForLoan (requestOf 100000) (worldOf (verifiedProfile 10) []) =
       Rejected 200 AmountTooLow
         [Lit ''Requested amount ($'', Num 100000,
          Lit '') exceeds maximum approved amount ($'', Num 8,
          Lit ''). Please build your TigerScore first.'']
   \<and> approvedAmountOf (applyForLoan (requestOf 8) (worldOf (verifiedProfile 10) [])) = Some 8"
proof -
  let ?w = "worldOf (verifiedProfile 10) []"
  have t: "appropriateTier (scoreOf (verifiedProfile 10)) = Some (LOAN_TIERS ! 0)"
    by (simp add: appropriateTier_cases verifiedProfile_income)
  have i: "getVerifiedIncome (Some (verifiedProfile 10)) \<ge> MIN_REQUIRED_INCOME_PROOF"
    by (simp add: verifiedProfile_income MIN_REQUIRED_INCOME_PROOF_def)
  have d: "outstandingDebtUSD (getOutstandingLoans (loanAccounts ?w))
           / of_int (getVerifiedIncome (Some (verifiedProfile 10)))
         \<le> maxDtiRatio (LOAN_TIERS ! 0)"
    unfolding no_debt by (simp add: tier_fields)
  have v: "\<lfloor>randomDraw ?w * 3\<rfloor> < loanApplicationVelocityLimit (LOAN_TIERS ! 0)"
    by (simp add: requestOf_valid tier_fields)
  have m: "maxApprovedLoanAmount (LOAN_TIERS ! 0) (verifiedProfile 10) < 10"
    by (simp add: maxApproved_examples)
  have p1: "(100000 :: rat) > 0" and p2: "(8 :: rat) > 0" by simp_all
  note th1 = C6_amount_floor [OF requestOf_valid(1) requestOf_valid(2) p1 requestOf_valid(3)
      requestOf_valid(4) requestOf_valid(5) requestOf_valid(6) t i d v m]
  note th2 = C6_amount_floor [OF requestOf_valid(1) requestOf_valid(2) p2 requestOf_valid(3)
      requestOf_valid(4) requestOf_valid(5) requestOf_valid(6) t i d v m]
  show ?thesis
    using th1 th2 by (simp add: maxApproved_examples)
qed

end
